theory Spec2Isabelle
  imports Complex_Main "HOL-Library.AList"
begin

section \<open>JavaScript values\<close>

text \<open>
  A JavaScript number as \<open>JSON.parse\<close> can produce it: a finite double, which is a
  rational, or an infinity (the literal \<open>1e999\<close> parses to \<open>Infinity\<close>). \<open>NaN\<close> is
  not the image of any JSON text. The literal \<open>0.7\<close> of the source is written \<open>7 / 10\<close>.
\<close>

datatype jsnum = Num rat | PlusInfinity | MinusInfinity

text \<open>
  A JavaScript value built from JSON. An array is an object too: besides its elements it
  carries the named properties assigned to it (none after \<open>JSON.parse\<close>). An object is
  its list of own properties in insertion order.
\<close>

datatype json =
    JNull
  | JBool bool
  | JNum jsnum
  | JStr string
  | JArr "json list" "(string \<times> json) list"
  | JObj "(string \<times> json) list"

text \<open>
  What is thrown in \<open>ai-lessons.controllers.ts\<close> and \<open>auth.middleware.ts\<close>:
  \<open>SyntaxError\<close> by \<open>JSON.parse\<close>; \<open>ExtractionError\<close> is
  \<open>Error("Gemini did not return valid JSON")\<close>; \<open>ConfigurationError\<close> is
  \<open>Error("Missing GEMINI_API_KEY in environment variables")\<close>; \<open>UpstreamError\<close> is
  whatever \<open>generateContent\<close> or \<open>response.text()\<close> throws; \<open>TypeError\<close> comes from
  a property access on \<open>null\<close>/\<open>undefined\<close> or a property assignment on a primitive
  (module code is strict); \<open>LessonNotFound\<close> is \<open>Error("Lesson not found")\<close>;
  \<open>DbError\<close> is whatever a Prisma call throws; \<open>JsonWebTokenError\<close> and \<open>JwtOtherError\<close>
  are what \<open>jwt.verify\<close> throws.
\<close>

datatype error =
    SyntaxError
  | ExtractionError
  | ConfigurationError
  | UpstreamError
  | TypeError
  | LessonNotFound
  | DbError
  | JsonWebTokenError
  | JwtOtherError

section \<open>Strings\<close>

text \<open>
  A JavaScript string is modelled as a \<open>string\<close> whose characters are the code units
  below 256. The white space of \<open>String.prototype.trim\<close> and of the regular expression
  class \<open>\s\<close> is the same set; below 256 it is TAB, LF, VT, FF, CR, SPACE and NBSP.
\<close>

definition is_ws :: "char \<Rightarrow> bool" where
  "is_ws c = (c \<in> set [CHR 0x09, CHR 0x0A, CHR 0x0B, CHR 0x0C, CHR 0x0D, CHR 0x20, CHR 0xA0])"

definition trim :: "string \<Rightarrow> string" where
  "trim s = rev (dropWhile is_ws (rev (dropWhile is_ws s)))"

definition lower_char :: "char \<Rightarrow> char" where
  "lower_char c =
     (let n = (of_char c :: nat) in if 65 \<le> n \<and> n \<le> 90 then char_of (n + 32) else c)"

text \<open>\<open>starts_with_ci p s\<close>: the literal \<open>p\<close> (in lower case) matches at the start of \<open>s\<close>
  under the \<open>i\<close> flag.\<close>

definition starts_with_ci :: "string \<Rightarrow> string \<Rightarrow> bool" where
  "starts_with_ci p s = (length p \<le> length s \<and> map lower_char (take (length p) s) = p)"

definition ends_with :: "string \<Rightarrow> string \<Rightarrow> bool" where
  "ends_with p s = (length p \<le> length s \<and> drop (length s - length p) s = p)"

definition fence :: string where
  "fence = [CHR 0x60, CHR 0x60, CHR 0x60]"

text \<open>\<open>s.replace(/^```json\s*/i, "")\<close>: anchored at the start, the white space taken
  greedily.\<close>

definition strip_fence_json :: "string \<Rightarrow> string" where
  "strip_fence_json s =
     (if starts_with_ci (fence @ ''json'') s then dropWhile is_ws (drop 7 s) else s)"

text \<open>\<open>s.replace(/^```\s*/i, "")\<close>\<close>

definition strip_fence :: "string \<Rightarrow> string" where
  "strip_fence s = (if starts_with_ci fence s then dropWhile is_ws (drop 3 s) else s)"

text \<open>\<open>s.replace(/```$/i, "")\<close>: without the \<open>m\<close> flag \<open>$\<close> is the end of the input.\<close>

definition strip_end_fence :: "string \<Rightarrow> string" where
  "strip_end_fence s = (if ends_with fence s then take (length s - 3) s else s)"

definition cleaned_of :: "string \<Rightarrow> string" where
  "cleaned_of text = trim (strip_end_fence (strip_fence (strip_fence_json text)))"

text \<open>
  \<open>s.match(/\{[\s\S]*\}/)\<close> and \<open>s.match(/\[[\s\S]*\]/)\<close>, as the backtracking matcher
  runs them. \<open>greedy_to_last c xs\<close> is \<open>[\s\S]*\<close> followed by the closing character on
  the text after the opening one: the star first takes everything, then gives characters
  back until the closing character matches. \<open>regex_span\<close> tries the start positions from
  the left and returns the matched text \<open>m[0]\<close> of the first position that matches.
\<close>

fun greedy_to_last :: "char \<Rightarrow> string \<Rightarrow> string option" where
  "greedy_to_last c [] = None"
| "greedy_to_last c (x # xs) =
     (case greedy_to_last c xs of
        Some r \<Rightarrow> Some (x # r)
      | None \<Rightarrow> if x = c then Some [x] else None)"

fun regex_span :: "char \<Rightarrow> char \<Rightarrow> string \<Rightarrow> string option" where
  "regex_span opn cls [] = None"
| "regex_span opn cls (x # xs) =
     (if x = opn then
        (case greedy_to_last cls xs of
           Some r \<Rightarrow> Some (x # r)
         | None \<Rightarrow> regex_span opn cls xs)
      else regex_span opn cls xs)"

section \<open>Extraction: \<open>safeJsonParse\<close>\<close>

text \<open>
  \<open>try { return a } catch {}\<close> followed by \<open>rest\<close>: the value of \<open>a\<close> is returned,
  whatever \<open>a\<close> throws is dropped and control falls through to \<open>rest\<close>.
\<close>

definition or_else :: "error + 'a \<Rightarrow> error + 'a \<Rightarrow> error + 'a" where
  "or_else a rest = (case a of Inr v \<Rightarrow> Inr v | Inl _ \<Rightarrow> rest)"

text \<open>
  \<open>safeJsonParse\<close> (lines 17 to 49). \<open>JSON.parse\<close> is the parameter \<open>parse\<close>: it returns
  a value or throws. \<open>raw\<close> is a string, so \<open>String(raw || "")\<close> is \<open>raw\<close>.
\<close>

definition safeJsonParse :: "(string \<Rightarrow> error + json) \<Rightarrow> string \<Rightarrow> error + json" where
  "safeJsonParse parse raw =
     (let text = trim raw in
      or_else (parse text)
        (let cleaned = cleaned_of text in
         or_else (parse cleaned)
           (let arr_step =
                  (case regex_span CHR ''['' CHR '']'' cleaned of
                     None \<Rightarrow> Inl ExtractionError
                   | Some m \<Rightarrow> or_else (parse m) (Inl ExtractionError))
            in case regex_span CHR ''{'' CHR ''}'' cleaned of
                 None \<Rightarrow> arr_step
               | Some m \<Rightarrow> or_else (parse m) arr_step)))"

subsection \<open>The extraction strategies as the specification words them\<close>

text \<open>
  The span from the first \<open>opn\<close> to the last \<open>cls\<close> of a text: the text from the first
  \<open>opn\<close> on, cut after its last \<open>cls\<close>; there is no span when no \<open>cls\<close> follows the
  first \<open>opn\<close>.
\<close>

definition span_first_last :: "char \<Rightarrow> char \<Rightarrow> string \<Rightarrow> string option" where
  "span_first_last opn cls s =
     (case dropWhile (\<lambda>x. x \<noteq> opn) s of
        [] \<Rightarrow> None
      | x # rest \<Rightarrow>
          if cls \<in> set rest
          then Some (x # rev (dropWhile (\<lambda>y. y \<noteq> cls) (rev rest)))
          else None)"

text \<open>
  Strategy 2 as section 4.3 of the specification words it: a leading fenced-code marker is
  stripped with its language tag, if it has one, and the white space after it; a trailing
  marker is stripped; the result is trimmed. \<open>tag\<close> tells how many characters at the head
  of a text are a language tag. \<open>any_tag\<close> takes the letters that follow the marker,
  whatever language they name; \<open>json_tag\<close> knows the tag \<open>json\<close> only, in any case.
\<close>

definition is_letter :: "char \<Rightarrow> bool" where
  "is_letter c =
     (let n = (of_char c :: nat) in (65 \<le> n \<and> n \<le> 90) \<or> (97 \<le> n \<and> n \<le> 122))"

definition any_tag :: "string \<Rightarrow> nat" where
  "any_tag r = length (takeWhile is_letter r)"

definition json_tag :: "string \<Rightarrow> nat" where
  "json_tag r = (if map lower_char (take 4 r) = ''json'' then 4 else 0)"

definition strip_fences_spec :: "(string \<Rightarrow> nat) \<Rightarrow> string \<Rightarrow> string" where
  "strip_fences_spec tag s =
     (let opened = (if take 3 s = fence
                    then dropWhile is_ws (drop (tag (drop 3 s)) (drop 3 s))
                    else s);
          closed = (if 3 \<le> length opened \<and> drop (length opened - 3) opened = fence
                    then take (length opened - 3) opened
                    else opened)
      in trim closed)"

text \<open>
  A text that begins with a marker tagged \<open>json\<close> and goes on with a second marker.
\<close>

definition double_marker :: "string \<Rightarrow> bool" where
  "double_marker s =
     (take 3 s = fence \<and> map lower_char (take 4 (drop 3 s)) = ''json''
      \<and> take 3 (dropWhile is_ws (drop 7 s)) = fence)"

text \<open>
  The four candidate texts, in the order of the specification, for a trimmed text and the
  text without its fences.
\<close>

definition candidates :: "string \<Rightarrow> string \<Rightarrow> string option list" where
  "candidates text cleaned =
     [Some text,
      Some cleaned,
      span_first_last CHR ''{'' CHR ''}'' cleaned,
      span_first_last CHR ''['' CHR '']'' cleaned]"

definition attempt :: "(string \<Rightarrow> error + json) \<Rightarrow> string option \<Rightarrow> json option" where
  "attempt parse cand =
     (case cand of
        None \<Rightarrow> None
      | Some s \<Rightarrow> (case parse s of Inr v \<Rightarrow> Some v | Inl _ \<Rightarrow> None))"

text \<open>First success wins; \<open>ExtractionError\<close> when every candidate fails.\<close>

definition first_success ::
  "(string \<Rightarrow> error + json) \<Rightarrow> string option list \<Rightarrow> error + json" where
  "first_success parse cands =
     (case List.map_filter (attempt parse) cands of
        [] \<Rightarrow> Inl ExtractionError
      | v # _ \<Rightarrow> Inr v)"

text \<open>Extraction as the specification words it, for a reading of the language tag.\<close>

definition extract_spec ::
  "(string \<Rightarrow> nat) \<Rightarrow> (string \<Rightarrow> error + json) \<Rightarrow> string \<Rightarrow> error + json" where
  "extract_spec tag parse raw =
     first_success parse (candidates (trim raw) (strip_fences_spec tag (trim raw)))"

section \<open>Values at run time\<close>

text \<open>
  What \<open>JSON.stringify\<close> keeps of a value: the body that \<open>res.json\<close> sends and the
  content of a JSON column. An infinity is written \<open>null\<close>, the named properties of an
  array are not written.
\<close>

primrec wire :: "json \<Rightarrow> json" where
  "wire JNull = JNull"
| "wire (JBool b) = JBool b"
| "wire (JNum n) = (case n of Num q \<Rightarrow> JNum (Num q) | PlusInfinity \<Rightarrow> JNull | MinusInfinity \<Rightarrow> JNull)"
| "wire (JStr s) = JStr s"
| "wire (JArr xs ps) = JArr (map wire xs) []"
| "wire (JObj kvs) = JObj (map (map_prod id wire) kvs)"

text \<open>
  \<open>v.k\<close> for a key \<open>k\<close> that is neither an index nor a name defined on a prototype (the
  source reads \<open>accuracy\<close>, \<open>feedback\<close>, \<open>suggestions\<close> and \<open>phonemes\<close>). \<open>None\<close> is
  \<open>undefined\<close>; reading a property of \<open>null\<close> throws.
\<close>

fun get_prop :: "json \<Rightarrow> string \<Rightarrow> error + json option" where
  "get_prop JNull k = Inl TypeError"
| "get_prop (JObj kvs) k = Inr (map_of kvs k)"
| "get_prop (JArr xs ps) k = Inr (map_of ps k)"
| "get_prop v k = Inr None"

text \<open>\<open>v.k = x\<close> in strict code: it throws on \<open>null\<close> and on a primitive.\<close>

fun set_prop :: "json \<Rightarrow> string \<Rightarrow> json \<Rightarrow> error + json" where
  "set_prop (JObj kvs) k x = Inr (JObj (AList.update k x kvs))"
| "set_prop (JArr xs ps) k x = Inr (JArr xs (AList.update k x ps))"
| "set_prop v k x = Inl TypeError"

fun is_array :: "json option \<Rightarrow> bool" where
  "is_array (Some (JArr xs ps)) = True"
| "is_array v = False"

fun is_string :: "json option \<Rightarrow> bool" where
  "is_string (Some (JStr s)) = True"
| "is_string v = False"

text \<open>\<open>typeof v !== "number" || v < 0 || v > 1\<close>\<close>

fun bad_accuracy :: "json option \<Rightarrow> bool" where
  "bad_accuracy (Some (JNum (Num q))) = (q < 0 \<or> q > 1)"
| "bad_accuracy (Some (JNum PlusInfinity)) = True"
| "bad_accuracy (Some (JNum MinusInfinity)) = True"
| "bad_accuracy v = True"

text \<open>JavaScript truth of a value, for \<open>lesson.content || {...}\<close>.\<close>

fun truthy :: "json \<Rightarrow> bool" where
  "truthy JNull = False"
| "truthy (JBool b) = b"
| "truthy (JNum n) = (n \<noteq> Num 0)"
| "truthy (JStr s) = (s \<noteq> [])"
| "truthy v = True"

text \<open>A string field that is present and not empty: the fields \<open>!x\<close> does not reject.\<close>

definition required :: "string option \<Rightarrow> string option" where
  "required x = (case x of None \<Rightarrow> None | Some s \<Rightarrow> if s = [] then None else Some s)"

text \<open>\<open>s.split(" ")[0]\<close> and \<open>s.split(" ")[1]\<close>\<close>

definition split_first :: "string \<Rightarrow> string" where
  "split_first s = takeWhile (\<lambda>c. c \<noteq> CHR 0x20) s"

definition split_second :: "string \<Rightarrow> string option" where
  "split_second s =
     (case dropWhile (\<lambda>c. c \<noteq> CHR 0x20) s of
        [] \<Rightarrow> None
      | sp # rest \<Rightarrow> Some (takeWhile (\<lambda>c. c \<noteq> CHR 0x20) rest))"

section \<open>Collaborators and stored data\<close>

datatype level = BEGINNER | INTERMEDIATE | ADVANCED

fun level_name :: "level \<Rightarrow> string" where
  "level_name BEGINNER = ''BEGINNER''"
| "level_name INTERMEDIATE = ''INTERMEDIATE''"
| "level_name ADVANCED = ''ADVANCED''"

text \<open>The places of the source that call the model.\<close>

datatype model_site = GenLesson | GenQuiz | GenConversation | GenReply | GenPronunciation

text \<open>The places of the source that call Prisma. No request reaches one of them twice.\<close>

datatype db_site =
    AuthUserFind
  | LessonLanguageFind | LessonCreate | ProgressCreate
  | QuizLessonFind | InternalLessonFind | QuizCreate
  | ConvLanguageFind | ConvCreate
  | ReplyLanguageFind | ExchangeCreate
  | PronLanguageFind | PronCreate
  | ContentLessonFind

text \<open>What a request does, in order: Prisma calls, model calls, \<open>console.error\<close> lines.\<close>

datatype event = Db db_site | Model model_site | Log string

text \<open>
  Everything outside the repository that a request meets. \<open>api_key\<close>: the variable
  \<open>GEMINI_API_KEY\<close> is set. \<open>gemini\<close>: the text \<open>generateContent\<close> and
  \<open>response.text()\<close> give at a call site, \<open>None\<close> when either throws; the prompt text
  decides no branch of the source and is not modelled. \<open>json_parse\<close>: \<open>JSON.parse\<close>.
  \<open>db_fault\<close>: the Prisma call at a site throws (the database is down, a constraint is
  violated). \<open>new_id\<close>: the id Prisma gives the row
  created at a site. \<open>jwt_verify\<close>: \<open>jwt.verify\<close>, giving the \<open>userId\<close> of the payload.
  \<open>error_text\<close>: the \<open>message\<close> of a thrown object.
\<close>

record env =
  api_key :: bool
  gemini :: "model_site \<Rightarrow> string option"
  json_parse :: "string \<Rightarrow> error + json"
  db_fault :: "db_site \<Rightarrow> bool"
  new_id :: "db_site \<Rightarrow> string"
  jwt_verify :: "string \<Rightarrow> error + string"
  error_text :: "error \<Rightarrow> string"

record user =
  user_id :: string
  user_email :: string
  user_fullName :: string

record language =
  lang_id :: string
  lang_name :: string
  lang_code :: string

text \<open>The rows, without their time stamps. A \<open>lesson_content\<close> of \<open>JNull\<close> is SQL NULL.\<close>

record lesson =
  lesson_id :: string
  lesson_title :: string
  lesson_description :: string
  lesson_languageId :: string
  lesson_level :: level
  lesson_content :: json

record quiz =
  quiz_id :: string
  quiz_lessonId :: string
  quiz_questions :: json

record progress =
  progress_id :: string
  progress_userId :: string
  progress_lessonId :: string
  progress_score :: int
  progress_completed :: bool

record conversation =
  conversation_id :: string
  conversation_userId :: string
  conversation_transcript :: json

record exchange =
  exchange_id :: string
  exchange_userId :: string
  exchange_languageId :: string
  exchange_userMessage :: string
  exchange_aiResponse :: string

text \<open>\<open>pron_feedback\<close> is the value whose \<open>JSON.stringify\<close> text the column holds.\<close>

record pron_row =
  pron_id :: string
  pron_userId :: string
  pron_sentence :: string
  pron_accuracy :: "json option"
  pron_feedback :: json

record world =
  users :: "user list"
  languages :: "language list"
  lessons :: "lesson list"
  quizzes :: "quiz list"
  progresses :: "progress list"
  conversations :: "conversation list"
  exchanges :: "exchange list"
  pron_rows :: "pron_row list"
  trace :: "event list"

text \<open>
  The request: the \<open>Authorization\<close> header, \<open>req.user\<close>, the fields of the body with
  the types the source declares for them, and the route parameter \<open>lessonId\<close>.
  \<open>numberOfQuestions\<close> only enters the prompt and is left out.
\<close>

record request =
  authorization :: "string option"
  req_user :: "user option"
  languageId :: "string option"
  level :: "level option"
  topic :: "string option"
  lessonId :: "string option"
  scenario :: "string option"
  message :: "string option"
  audioData :: "string option"
  targetText :: "string option"
  param_lessonId :: string

record response =
  status :: nat
  body :: json

definition emit :: "event \<Rightarrow> world \<Rightarrow> world" where
  "emit e w = w\<lparr>trace := trace w @ [e]\<rparr>"

text \<open>\<open>res.status(st).json(v)\<close>\<close>

definition res_json :: "nat \<Rightarrow> json \<Rightarrow> response" where
  "res_json st v = \<lparr>status = st, body = wire v\<rparr>"

definition failure :: "string \<Rightarrow> string \<Rightarrow> json" where
  "failure key msg = JObj [(''success'', JBool False), (key, JStr msg)]"

subsection \<open>Prisma calls\<close>

definition find_user :: "env \<Rightarrow> db_site \<Rightarrow> string \<Rightarrow> world \<Rightarrow> (error + user option) \<times> world" where
  "find_user env site uid w =
     (if db_fault env site then Inl DbError else Inr (List.find (\<lambda>u. user_id u = uid) (users w)),
      emit (Db site) w)"

definition find_language ::
  "env \<Rightarrow> db_site \<Rightarrow> string \<Rightarrow> world \<Rightarrow> (error + language option) \<times> world" where
  "find_language env site lid w =
     (if db_fault env site then Inl DbError
      else Inr (List.find (\<lambda>l. lang_id l = lid) (languages w)),
      emit (Db site) w)"

definition find_lesson ::
  "env \<Rightarrow> db_site \<Rightarrow> string \<Rightarrow> world \<Rightarrow> (error + lesson option) \<times> world" where
  "find_lesson env site lid w =
     (if db_fault env site then Inl DbError
      else Inr (List.find (\<lambda>l. lesson_id l = lid) (lessons w)),
      emit (Db site) w)"

text \<open>\<open>include: { Quiz: true }\<close>: the quizzes of a lesson, read with the lesson.\<close>

definition quizzes_of :: "world \<Rightarrow> string \<Rightarrow> quiz list" where
  "quizzes_of w lid = filter (\<lambda>q. quiz_lessonId q = lid) (quizzes w)"

text \<open>\<open>include: { language: true }\<close>\<close>

definition language_of :: "world \<Rightarrow> lesson \<Rightarrow> language option" where
  "language_of w l = List.find (\<lambda>g. lang_id g = lesson_languageId l) (languages w)"

definition create_lesson :: "env \<Rightarrow> lesson \<Rightarrow> world \<Rightarrow> (error + lesson) \<times> world" where
  "create_lesson env row w =
     (if db_fault env LessonCreate then (Inl DbError, emit (Db LessonCreate) w)
      else (Inr row, emit (Db LessonCreate) (w\<lparr>lessons := lessons w @ [row]\<rparr>)))"

definition create_quiz :: "env \<Rightarrow> quiz \<Rightarrow> world \<Rightarrow> (error + quiz) \<times> world" where
  "create_quiz env row w =
     (if db_fault env QuizCreate then (Inl DbError, emit (Db QuizCreate) w)
      else (Inr row, emit (Db QuizCreate) (w\<lparr>quizzes := quizzes w @ [row]\<rparr>)))"

definition create_progress :: "env \<Rightarrow> progress \<Rightarrow> world \<Rightarrow> (error + progress) \<times> world" where
  "create_progress env row w =
     (if db_fault env ProgressCreate then (Inl DbError, emit (Db ProgressCreate) w)
      else (Inr row, emit (Db ProgressCreate) (w\<lparr>progresses := progresses w @ [row]\<rparr>)))"

definition create_conversation ::
  "env \<Rightarrow> conversation \<Rightarrow> world \<Rightarrow> (error + conversation) \<times> world" where
  "create_conversation env row w =
     (if db_fault env ConvCreate then (Inl DbError, emit (Db ConvCreate) w)
      else (Inr row, emit (Db ConvCreate) (w\<lparr>conversations := conversations w @ [row]\<rparr>)))"

definition create_exchange :: "env \<Rightarrow> exchange \<Rightarrow> world \<Rightarrow> (error + exchange) \<times> world" where
  "create_exchange env row w =
     (if db_fault env ExchangeCreate then (Inl DbError, emit (Db ExchangeCreate) w)
      else (Inr row, emit (Db ExchangeCreate) (w\<lparr>exchanges := exchanges w @ [row]\<rparr>)))"

definition create_pron :: "env \<Rightarrow> pron_row \<Rightarrow> world \<Rightarrow> (error + pron_row) \<times> world" where
  "create_pron env row w =
     (if db_fault env PronCreate then (Inl DbError, emit (Db PronCreate) w)
      else (Inr row, emit (Db PronCreate) (w\<lparr>pron_rows := pron_rows w @ [row]\<rparr>)))"

subsection \<open>Model calls\<close>

text \<open>\<open>callGeminiText\<close> (lines 51 to 67)\<close>

definition callGeminiText :: "env \<Rightarrow> model_site \<Rightarrow> world \<Rightarrow> (error + string) \<times> world" where
  "callGeminiText env site w =
     (if \<not> api_key env then (Inl ConfigurationError, w)
      else (case gemini env site of
              None \<Rightarrow> Inl UpstreamError
            | Some raw \<Rightarrow> Inr raw,
            emit (Model site) w))"

text \<open>\<open>callGeminiJSON\<close> (lines 69 to 101)\<close>

definition callGeminiJSON :: "env \<Rightarrow> model_site \<Rightarrow> world \<Rightarrow> (error + json) \<times> world" where
  "callGeminiJSON env site w =
     (if \<not> api_key env then (Inl ConfigurationError, w)
      else (case gemini env site of
              None \<Rightarrow> Inl UpstreamError
            | Some raw \<Rightarrow> safeJsonParse (json_parse env) raw,
            emit (Model site) w))"

section \<open>The controllers\<close>

text \<open>
  The body of a controller runs inside \<open>try { ... } catch (error) { ... }\<close>: it gives a
  response or throws, and the handler of the \<open>catch\<close> logs and answers 500.
\<close>

definition catch_500 ::
  "string \<Rightarrow> (error \<Rightarrow> json) \<Rightarrow> (error + response) \<times> world \<Rightarrow> response \<times> world" where
  "catch_500 line body_of r =
     (case r of
        (Inr resp, w) \<Rightarrow> (resp, w)
      | (Inl e, w) \<Rightarrow> (res_json 500 (body_of e), emit (Log line) w))"

text \<open>\<open>(req as any).user?.id\<close>\<close>

definition userId_of :: "request \<Rightarrow> string option" where
  "userId_of req = map_option user_id (req_user req)"

subsection \<open>Quiz generation\<close>

text \<open>
  \<open>generateQuizInternal\<close> (lines 271 to 316). \<open>lessonContent\<close> and \<open>numberOfQuestions\<close>
  only enter the prompt. The document the model returns is stored as it is.
\<close>

definition generateQuizInternal :: "env \<Rightarrow> string \<Rightarrow> world \<Rightarrow> (error + quiz) \<times> world" where
  "generateQuizInternal env lid w =
     (case find_lesson env InternalLessonFind lid w of
        (Inl e, w1) \<Rightarrow> (Inl e, w1)
      | (Inr None, w1) \<Rightarrow> (Inl LessonNotFound, w1)
      | (Inr (Some l), w1) \<Rightarrow>
          (case callGeminiJSON env GenQuiz w1 of
             (Inr quizContent, w2) \<Rightarrow>
               create_quiz env
                 \<lparr>quiz_id = new_id env QuizCreate, quiz_lessonId = lid,
                  quiz_questions = wire quizContent\<rparr> w2
           | (Inl e, w2) \<Rightarrow>
               create_quiz env
                 \<lparr>quiz_id = new_id env QuizCreate, quiz_lessonId = lid,
                  quiz_questions = wire (JArr [] [])\<rparr>
                 (emit (Log ''Quiz JSON generation failed:'') w2)))"

text \<open>\<open>Array.isArray(q.questions) ? q.questions : []\<close>\<close>

definition questions_or_empty :: "json \<Rightarrow> json" where
  "questions_or_empty q = (if is_array (Some q) then q else JArr [] [])"

definition quiz_json :: "quiz \<Rightarrow> json" where
  "quiz_json q =
     JObj [(''id'', JStr (quiz_id q)), (''lessonId'', JStr (quiz_lessonId q)),
           (''questions'', questions_or_empty (quiz_questions q))]"

text \<open>\<open>generateQuiz\<close> (lines 232 to 269)\<close>

definition generateQuiz :: "env \<Rightarrow> request \<Rightarrow> world \<Rightarrow> response \<times> world" where
  "generateQuiz env req w =
     catch_500 ''Error generating quiz:'' (\<lambda>e. failure ''message'' ''Error generating quiz'')
       (case required (lessonId req) of
          None \<Rightarrow> (Inr (res_json 400 (failure ''message'' ''lessonId is required'')), w)
        | Some lid \<Rightarrow>
            (case find_lesson env QuizLessonFind lid w of
               (Inl e, w1) \<Rightarrow> (Inl e, w1)
             | (Inr None, w1) \<Rightarrow>
                 (Inr (res_json 404 (failure ''message'' ''Lesson not found'')), w1)
             | (Inr (Some l), w1) \<Rightarrow>
                 (case quizzes_of w1 (lesson_id l) of
                    existing # others \<Rightarrow>
                      (Inr (res_json 200
                         (JObj [(''success'', JBool True), (''quiz'', quiz_json existing)])), w1)
                  | [] \<Rightarrow>
                      (case generateQuizInternal env lid w1 of
                         (Inl e, w2) \<Rightarrow> (Inl e, w2)
                       | (Inr q, w2) \<Rightarrow>
                           (Inr (res_json 200
                              (JObj [(''success'', JBool True), (''quiz'', quiz_json q)])),
                            w2)))))"

subsection \<open>Lesson generation\<close>

definition fallback_lesson :: json where
  "fallback_lesson =
     JObj [(''vocabulary'', JArr [] []),
           (''grammar'', JStr ''Lesson generated but JSON formatting failed. Please retry.''),
           (''examples'', JArr [] []),
           (''exercises'', JArr [] []),
           (''culturalNotes'', JStr '''')]"

definition lesson_json :: "lesson \<Rightarrow> json \<Rightarrow> json" where
  "lesson_json l content =
     JObj [(''id'', JStr (lesson_id l)), (''title'', JStr (lesson_title l)),
           (''description'', JStr (lesson_description l)),
           (''languageId'', JStr (lesson_languageId l)),
           (''level'', JStr (level_name (lesson_level l))),
           (''content'', content)]"

definition progress_json :: "progress \<Rightarrow> json" where
  "progress_json p =
     JObj [(''id'', JStr (progress_id p)), (''completed'', JBool (progress_completed p)),
           (''score'', JNum (Num (of_int (progress_score p))))]"

text \<open>
  Lines 155 to 189: the model call and the parse, inside \<open>try\<close>; whatever is thrown
  there is logged and replaced by the fixed content.
\<close>

definition lesson_content_of :: "env \<Rightarrow> world \<Rightarrow> json \<times> world" where
  "lesson_content_of env w =
     (case callGeminiJSON env GenLesson w of
        (Inr doc, w1) \<Rightarrow> (doc, w1)
      | (Inl e, w1) \<Rightarrow> (fallback_lesson, emit (Log ''Lesson JSON generation failed:'') w1))"

text \<open>Lines 201 to 205: the quiz of the new lesson, inside its own \<open>try\<close>.\<close>

definition auto_quiz :: "env \<Rightarrow> string \<Rightarrow> world \<Rightarrow> world" where
  "auto_quiz env lid w =
     (case generateQuizInternal env lid w of
        (Inr q, w1) \<Rightarrow> w1
      | (Inl e, w1) \<Rightarrow> emit (Log ''Auto quiz generation failed:'') w1)"

text \<open>\<open>generateLesson\<close> (lines 135 to 229)\<close>

definition generateLesson :: "env \<Rightarrow> request \<Rightarrow> world \<Rightarrow> response \<times> world" where
  "generateLesson env req w =
     catch_500 ''Error generating lesson:'' (\<lambda>e. failure ''message'' ''Error generating lesson'')
       (case (required (languageId req), level req) of
          (Some lid, Some lvl) \<Rightarrow>
            (case required (userId_of req) of
               None \<Rightarrow> (Inr (res_json 401 (failure ''message'' ''Unauthorized'')), w)
             | Some uid \<Rightarrow>
                 (case find_language env LessonLanguageFind lid w of
                    (Inl e, w1) \<Rightarrow> (Inl e, w1)
                  | (Inr None, w1) \<Rightarrow>
                      (Inr (res_json 404 (failure ''message'' ''Language not found'')), w1)
                  | (Inr (Some lang), w1) \<Rightarrow>
                      (case lesson_content_of env w1 of
                         (lessonContent, w2) \<Rightarrow>
                           (case create_lesson env
                                   \<lparr>lesson_id = new_id env LessonCreate,
                                    lesson_title =
                                      (case required (topic req) of
                                         Some t \<Rightarrow> t
                                       | None \<Rightarrow> level_name lvl @ '' '' @ lang_name lang @ '' Lesson''),
                                    lesson_description = ''AI-generated lesson'',
                                    lesson_languageId = lid,
                                    lesson_level = lvl,
                                    lesson_content = wire lessonContent\<rparr> w2 of
                              (Inl e, w3) \<Rightarrow> (Inl e, w3)
                            | (Inr l, w3) \<Rightarrow>
                                (case create_progress env
                                        \<lparr>progress_id = new_id env ProgressCreate,
                                         progress_userId = uid,
                                         progress_lessonId = lesson_id l,
                                         progress_score = 0,
                                         progress_completed = False\<rparr>
                                        (auto_quiz env (lesson_id l) w3) of
                                   (Inl e, w5) \<Rightarrow> (Inl e, w5)
                                 | (Inr p, w5) \<Rightarrow>
                                     (Inr (res_json 200
                                        (JObj [(''success'', JBool True),
                                               (''lesson'', lesson_json l lessonContent),
                                               (''progress'', progress_json p)])),
                                      w5))))))
        | other \<Rightarrow>
            (Inr (res_json 400 (failure ''message'' ''languageId and level are required'')), w))"

subsection \<open>Lesson retrieval\<close>

definition empty_content :: json where
  "empty_content =
     JObj [(''vocabulary'', JArr [] []), (''grammar'', JStr ''''), (''examples'', JArr [] []),
           (''exercises'', JArr [] []), (''culturalNotes'', JStr '''')]"

definition language_json :: "language option \<Rightarrow> json" where
  "language_json g =
     (case g of
        None \<Rightarrow> JNull
      | Some x \<Rightarrow>
          JObj [(''id'', JStr (lang_id x)), (''name'', JStr (lang_name x)),
                (''code'', JStr (lang_code x))])"

text \<open>Lines 569 to 593: \<open>quiz\<close> is \<open>lesson.Quiz?.[0]\<close>.\<close>

definition content_quiz_json :: "lesson \<Rightarrow> quiz list \<Rightarrow> json" where
  "content_quiz_json l qs =
     JObj [(''id'', (case qs of [] \<Rightarrow> JStr '''' | q # others \<Rightarrow> JStr (quiz_id q))),
           (''lessonId'', JStr (lesson_id l)),
           (''questions'',
            (case qs of
               [] \<Rightarrow> JArr [] []
             | q # others \<Rightarrow> questions_or_empty (quiz_questions q)))]"

text \<open>\<open>getLessonContent\<close> (lines 556 to 600)\<close>

definition getLessonContent :: "env \<Rightarrow> request \<Rightarrow> world \<Rightarrow> response \<times> world" where
  "getLessonContent env req w =
     catch_500 ''Error fetching lesson:'' (\<lambda>e. failure ''message'' ''Error fetching lesson'')
       (case find_lesson env ContentLessonFind (param_lessonId req) w of
          (Inl e, w1) \<Rightarrow> (Inl e, w1)
        | (Inr None, w1) \<Rightarrow> (Inr (res_json 404 (failure ''message'' ''Lesson not found'')), w1)
        | (Inr (Some l), w1) \<Rightarrow>
            (Inr (res_json 200
               (JObj [(''success'', JBool True),
                      (''lesson'',
                       JObj [(''id'', JStr (lesson_id l)),
                             (''title'', JStr (lesson_title l)),
                             (''description'', JStr (lesson_description l)),
                             (''level'', JStr (level_name (lesson_level l))),
                             (''languageId'', JStr (lesson_languageId l)),
                             (''language'', language_json (language_of w1 l)),
                             (''content'',
                              (if truthy (lesson_content l) then lesson_content l
                               else empty_content)),
                             (''quiz'', content_quiz_json l (quizzes_of w1 (lesson_id l)))])])),
             w1))"

subsection \<open>Conversation practice\<close>

text \<open>
  The object literal \<open>{ [language.code]: a, english: b }\<close>: the later property wins when
  the code is \<open>english\<close>.
\<close>

definition script_line :: "string \<Rightarrow> string \<Rightarrow> string \<Rightarrow> json" where
  "script_line code a b = JObj (AList.update ''english'' (JStr b) [(code, JStr a)])"

definition fallback_conversation :: "string \<Rightarrow> json" where
  "fallback_conversation code =
     JObj [(''context'', JStr ''Practice conversation''),
           (''vocabulary'', JArr [] []),
           (''script'',
            JArr [script_line code ''Hola'' ''Hello'',
                  script_line code
                    ([CHR 0xBF] @ ''C'' @ [CHR 0xF3] @ ''mo est'' @ [CHR 0xE1] @ ''s?'')
                    ''How are you?''] []),
           (''culturalNotes'', JStr '''')]"

definition scenario_or_default :: "request \<Rightarrow> string" where
  "scenario_or_default req =
     (case required (scenario req) of Some s \<Rightarrow> s | None \<Rightarrow> ''General conversation'')"

text \<open>\<open>generateConversationPrompt\<close> (lines 318 to 403)\<close>

definition generateConversationPrompt :: "env \<Rightarrow> request \<Rightarrow> world \<Rightarrow> response \<times> world" where
  "generateConversationPrompt env req w =
     catch_500 ''Error generating conversation prompt:''
       (\<lambda>e. failure ''message'' ''Error generating conversation prompt'')
       (case (required (languageId req), level req) of
          (Some lid, Some lvl) \<Rightarrow>
            (case required (userId_of req) of
               None \<Rightarrow> (Inr (res_json 401 (failure ''message'' ''Unauthorized'')), w)
             | Some uid \<Rightarrow>
                 (case find_language env ConvLanguageFind lid w of
                    (Inl e, w1) \<Rightarrow> (Inl e, w1)
                  | (Inr None, w1) \<Rightarrow>
                      (Inr (res_json 404 (failure ''message'' ''Language not found'')), w1)
                  | (Inr (Some lang), w1) \<Rightarrow>
                      (case (case callGeminiJSON env GenConversation w1 of
                               (Inr doc, w2) \<Rightarrow> (doc, w2)
                             | (Inl e, w2) \<Rightarrow>
                                 (fallback_conversation (lang_code lang),
                                  emit (Log ''Conversation JSON generation failed:'') w2)) of
                         (conversationContent, w3) \<Rightarrow>
                           (case create_conversation env
                                   \<lparr>conversation_id = new_id env ConvCreate,
                                    conversation_userId = uid,
                                    conversation_transcript =
                                      wire (JObj [(''languageId'', JStr lid),
                                                  (''level'', JStr (level_name lvl)),
                                                  (''scenario'', JStr (scenario_or_default req)),
                                                  (''content'', conversationContent)])\<rparr> w3 of
                              (Inl e, w4) \<Rightarrow> (Inl e, w4)
                            | (Inr c, w4) \<Rightarrow>
                                (Inr (res_json 200
                                   (JObj [(''success'', JBool True),
                                          (''conversation'',
                                           JObj [(''id'', JStr (conversation_id c)),
                                                 (''languageId'', JStr lid),
                                                 (''level'', JStr (level_name lvl)),
                                                 (''scenario'', JStr (scenario_or_default req)),
                                                 (''content'', conversationContent)])])),
                                 w4)))))
        | other \<Rightarrow>
            (Inr (res_json 400 (failure ''message'' ''languageId and level are required'')), w))"

text \<open>
  \<open>getConversationResponse\<close> (lines 405 to 464). A failure to store the exchange is
  logged and dropped.
\<close>

definition getConversationResponse :: "env \<Rightarrow> request \<Rightarrow> world \<Rightarrow> response \<times> world" where
  "getConversationResponse env req w =
     catch_500 ''Error generating conversation response:''
       (\<lambda>e. failure ''message'' ''Error generating conversation response'')
       (case required (languageId req) of
          None \<Rightarrow> (Inr (res_json 400 (failure ''message'' ''Missing languageId'')), w)
        | Some lid \<Rightarrow>
            (case required (message req) of
               None \<Rightarrow> (Inr (res_json 400 (failure ''message'' ''Missing or invalid message'')), w)
             | Some msg \<Rightarrow>
                 (case required (userId_of req) of
                    None \<Rightarrow> (Inr (res_json 401 (failure ''message'' ''Unauthorized'')), w)
                  | Some uid \<Rightarrow>
                      (case find_language env ReplyLanguageFind lid w of
                         (Inl e, w1) \<Rightarrow> (Inl e, w1)
                       | (Inr None, w1) \<Rightarrow>
                           (Inr (res_json 404 (failure ''message'' ''Language not found'')), w1)
                       | (Inr (Some lang), w1) \<Rightarrow>
                           (case callGeminiText env GenReply w1 of
                              (Inl e, w2) \<Rightarrow> (Inl e, w2)
                            | (Inr responseText, w2) \<Rightarrow>
                                (Inr (res_json 200
                                   (JObj [(''success'', JBool True),
                                          (''data'', JObj [(''response'', JStr responseText)])])),
                                 (case create_exchange env
                                         \<lparr>exchange_id = new_id env ExchangeCreate,
                                          exchange_userId = uid,
                                          exchange_languageId = lid,
                                          exchange_userMessage = msg,
                                          exchange_aiResponse = responseText\<rparr> w2 of
                                    (Inr x, w3) \<Rightarrow> w3
                                  | (Inl e, w3) \<Rightarrow>
                                      emit (Log ''Error saving conversation:'') w3)))))))"

subsection \<open>Pronunciation feedback\<close>

definition bind_err :: "error + 'a \<Rightarrow> ('a \<Rightarrow> error + 'b) \<Rightarrow> error + 'b" where
  "bind_err m f = (case m of Inl e \<Rightarrow> Inl e | Inr v \<Rightarrow> f v)"

text \<open>The dash of the source text, U+2014, is written as a hyphen here.\<close>

definition good_attempt :: string where
  "good_attempt = ''Good attempt-keep practicing!''"

text \<open>Lines 511 to 516, on the document \<open>callGeminiJSON\<close> returned.\<close>

definition validate_feedback :: "json \<Rightarrow> error + json" where
  "validate_feedback fb0 =
     bind_err (get_prop fb0 ''accuracy'') (\<lambda>a.
     bind_err (if bad_accuracy a then set_prop fb0 ''accuracy'' (JNum (Num (7 / 10)))
               else Inr fb0) (\<lambda>fb1.
     bind_err (get_prop fb1 ''feedback'') (\<lambda>f.
     bind_err (if \<not> is_string f then set_prop fb1 ''feedback'' (JStr good_attempt)
               else Inr fb1) (\<lambda>fb2.
     bind_err (get_prop fb2 ''suggestions'') (\<lambda>s.
     bind_err (if \<not> is_array s then set_prop fb2 ''suggestions'' (JArr [] [])
               else Inr fb2) (\<lambda>fb3.
     bind_err (get_prop fb3 ''phonemes'') (\<lambda>p.
     (if \<not> is_array p then set_prop fb3 ''phonemes'' (JArr [] []) else Inr fb3))))))))"

text \<open>Lines 519 to 534\<close>

definition fallback_feedback :: "string \<Rightarrow> json" where
  "fallback_feedback target =
     JObj [(''accuracy'', JNum (Num (7 / 10))),
           (''feedback'',
            JStr (''We received your pronunciation attempt for '' @ [CHR 0x22] @ target
                  @ [CHR 0x22] @ ''. Here are general tips to improve.'')),
           (''suggestions'',
            JArr [JStr ''Speak slowly and clearly, then speed up gradually'',
                  JStr ''Repeat the phrase 3 times focusing on vowel sounds'',
                  JStr ''Record again in a quiet room with mic close to you''] []),
           (''phonemes'',
            JArr [JObj [(''sound'',
                         JStr (if split_first target = [] then target else split_first target)),
                        (''accuracy'', JNum (Num (7 / 10))),
                        (''feedback'', JStr ''Focus on clear articulation.'')]] [])]"

text \<open>
  Lines 482 to 535: the model call, the parse and the four repairs are inside one \<open>try\<close>;
  whatever is thrown there is logged and replaced by the fixed feedback.
\<close>

definition feedback_of :: "env \<Rightarrow> string \<Rightarrow> world \<Rightarrow> json \<times> world" where
  "feedback_of env target w =
     (case callGeminiJSON env GenPronunciation w of
        (r, w1) \<Rightarrow>
          (case bind_err r validate_feedback of
             Inr fb \<Rightarrow> (fb, w1)
           | Inl e \<Rightarrow>
               (fallback_feedback target,
                emit (Log ''Pronunciation JSON generation failed:'') w1)))"

text \<open>\<open>error.message || "Failed to generate pronunciation feedback"\<close>\<close>

definition pron_failure :: "env \<Rightarrow> error \<Rightarrow> json" where
  "pron_failure env e =
     failure ''error''
       (if error_text env e = [] then ''Failed to generate pronunciation feedback''
        else error_text env e)"

text \<open>
  \<open>getPronunciationFeedback\<close> (lines 466 to 554). \<open>(req as any).user.id\<close> throws when
  \<open>req.user\<close> is undefined, before the row is written.
\<close>

definition getPronunciationFeedback :: "env \<Rightarrow> request \<Rightarrow> world \<Rightarrow> response \<times> world" where
  "getPronunciationFeedback env req w =
     catch_500 ''Error in getPronunciationFeedback:'' (pron_failure env)
       (case (required (languageId req), required (audioData req),
              required (targetText req), level req) of
          (Some lid, Some audio, Some target, Some lvl) \<Rightarrow>
            (case find_language env PronLanguageFind lid w of
               (Inl e, w1) \<Rightarrow> (Inl e, w1)
             | (Inr None, w1) \<Rightarrow>
                 (Inr (res_json 404 (failure ''error'' ''Language not found'')), w1)
             | (Inr (Some lang), w1) \<Rightarrow>
                 (case feedback_of env target w1 of
                    (feedback, w2) \<Rightarrow>
                      (case req_user req of
                         None \<Rightarrow> (Inl TypeError, w2)
                       | Some u \<Rightarrow>
                           (case get_prop feedback ''accuracy'' of
                              Inl e \<Rightarrow> (Inl e, w2)
                            | Inr acc \<Rightarrow>
                                (case create_pron env
                                        \<lparr>pron_id = new_id env PronCreate,
                                         pron_userId = user_id u,
                                         pron_sentence = target,
                                         pron_accuracy = acc,
                                         pron_feedback = wire feedback\<rparr> w2 of
                                   (Inl e, w3) \<Rightarrow> (Inl e, w3)
                                 | (Inr row, w3) \<Rightarrow>
                                     (Inr (res_json 200
                                        (JObj [(''success'', JBool True),
                                               (''feedback'', feedback)])),
                                      w3))))))
        | other \<Rightarrow>
            (Inr (res_json 400
               (failure ''error''
                  ''Missing required parameters: languageId, audioData, targetText, level'')),
             w))"

section \<open>The routes\<close>

text \<open>
  The token of \<open>authenticateToken\<close>: \<open>authHeader && authHeader.split(' ')[1]\<close>, when
  it is a string that is not empty.
\<close>

definition token_of :: "request \<Rightarrow> string option" where
  "token_of req =
     (case required (authorization req) of
        None \<Rightarrow> None
      | Some h \<Rightarrow> required (split_second h))"

text \<open>
  \<open>authenticateToken\<close> (\<open>auth.middleware.ts\<close>): it answers itself (\<open>Inl\<close>) or attaches
  the user and calls \<open>next()\<close> (\<open>Inr\<close>).
\<close>

definition authenticateToken :: "env \<Rightarrow> request \<Rightarrow> world \<Rightarrow> (response + request) \<times> world" where
  "authenticateToken env req w =
     (case token_of req of
        None \<Rightarrow> (Inl (res_json 401 (failure ''message'' ''Access token is required'')), w)
      | Some token \<Rightarrow>
          (case jwt_verify env token of
             Inl e \<Rightarrow>
               (if e = JsonWebTokenError
                then (Inl (res_json 403 (failure ''message'' ''Invalid or expired token'')), w)
                else (Inl (res_json 500
                        (failure ''message'' ''Internal server error during authentication'')),
                      emit (Log ''Authentication error:'') w))
           | Inr uid \<Rightarrow>
               (case find_user env AuthUserFind uid w of
                  (Inl e, w1) \<Rightarrow>
                    (Inl (res_json 500
                       (failure ''message'' ''Internal server error during authentication'')),
                     emit (Log ''Authentication error:'') w1)
                | (Inr None, w1) \<Rightarrow>
                    (Inl (res_json 401 (failure ''message'' ''User not found'')), w1)
                | (Inr (Some u), w1) \<Rightarrow> (Inr (req\<lparr>req_user := Some u\<rparr>), w1))))"

text \<open>The routes of \<open>/api/ai-lessons\<close>: each is \<open>authenticateToken\<close>, then its controller.\<close>

datatype route =
    GenerateLesson
  | GenerateQuiz
  | LessonContent
  | ConversationPrompt
  | ConversationResponse
  | PronunciationFeedback

fun controller :: "route \<Rightarrow> env \<Rightarrow> request \<Rightarrow> world \<Rightarrow> response \<times> world" where
  "controller GenerateLesson = generateLesson"
| "controller GenerateQuiz = generateQuiz"
| "controller LessonContent = getLessonContent"
| "controller ConversationPrompt = generateConversationPrompt"
| "controller ConversationResponse = getConversationResponse"
| "controller PronunciationFeedback = getPronunciationFeedback"

definition handle :: "route \<Rightarrow> env \<Rightarrow> request \<Rightarrow> world \<Rightarrow> response \<times> world" where
  "handle r env req w =
     (case authenticateToken env req w of
        (Inl resp, w1) \<Rightarrow> (resp, w1)
      | (Inr req1, w1) \<Rightarrow> controller r env req1 w1)"

section \<open>Reading documents\<close>

text \<open>A path into a value: \<open>v.k\<close> on an object, \<open>v[i]\<close> on an array.\<close>

datatype seg = Key string | Idx nat

fun at_path :: "json \<Rightarrow> seg list \<Rightarrow> json option" where
  "at_path v [] = Some v"
| "at_path (JObj kvs) (Key k # rest) =
     (case map_of kvs k of None \<Rightarrow> None | Some x \<Rightarrow> at_path x rest)"
| "at_path (JArr xs ps) (Idx i # rest) =
     (if i < length xs then at_path (xs ! i) rest else None)"
| "at_path v (s # rest) = None"

text \<open>
  A quiz question as the specification wants it: exactly four options and a numeric
  \<open>correctAnswer\<close> from 0 to 3.
\<close>

definition valid_question :: "json \<Rightarrow> bool" where
  "valid_question q =
     (case (at_path q [Key ''options''], at_path q [Key ''correctAnswer'']) of
        (Some (JArr os ps), Some (JNum (Num n))) \<Rightarrow> length os = 4 \<and> 0 \<le> n \<and> n \<le> 3
      | other \<Rightarrow> False)"

text \<open>The accuracy the specification allows: a number from 0 to 1.\<close>

definition unit_accuracy :: "json option \<Rightarrow> bool" where
  "unit_accuracy a = (case a of Some (JNum (Num q)) \<Rightarrow> 0 \<le> q \<and> q \<le> 1 | other \<Rightarrow> False)"

section \<open>Example inputs\<close>

definition example_user :: user where
  "example_user = \<lparr>user_id = ''u1'', user_email = ''ann@example.org'', user_fullName = ''Ann''\<rparr>"

definition example_language :: language where
  "example_language = \<lparr>lang_id = ''es'', lang_name = ''Spanish'', lang_code = ''es''\<rparr>"

definition example_lesson :: lesson where
  "example_lesson =
     \<lparr>lesson_id = ''lesson-0'', lesson_title = ''Greetings'',
      lesson_description = ''AI-generated lesson'', lesson_languageId = ''es'',
      lesson_level = BEGINNER, lesson_content = JNull\<rparr>"

definition example_world :: world where
  "example_world =
     \<lparr>users = [example_user], languages = [example_language], lessons = [example_lesson],
      quizzes = [], progresses = [], conversations = [], exchanges = [], pron_rows = [],
      trace = []\<rparr>"

text \<open>An environment with the key set in which every call of the model times out.\<close>

definition example_env :: env where
  "example_env =
     \<lparr>api_key = True,
      gemini = (\<lambda>s. None),
      json_parse = (\<lambda>s. Inl SyntaxError),
      db_fault = (\<lambda>s. False),
      new_id = (\<lambda>s. if s = LessonCreate then ''lesson-1''
                     else if s = QuizCreate then ''quiz-1'' else ''row-1''),
      jwt_verify = (\<lambda>t. if t = ''good'' then Inr ''u1''
                         else if t = ''gone'' then Inr ''u9'' else Inl JsonWebTokenError),
      error_text = (\<lambda>e. [])\<rparr>"

definition example_request :: request where
  "example_request =
     \<lparr>authorization = Some ''Bearer good'', req_user = Some example_user,
      languageId = Some ''es'', level = Some BEGINNER, topic = None,
      lessonId = Some ''lesson-0'', scenario = None, message = Some ''Hola'',
      audioData = Some ''UklGRg=='', targetText = Some ''Hola amigo'',
      param_lessonId = ''lesson-0''\<rparr>"

text \<open>
  The model answers a pronunciation request with an empty array, and with an array that
  wraps an accuracy of 1.5.
\<close>

definition array_env :: env where
  "array_env =
     example_env\<lparr>gemini := (\<lambda>s. Some ''[]''),
                 json_parse := (\<lambda>s. if s = ''[]'' then Inr (JArr [] [])
                                      else Inl SyntaxError)\<rparr>"

definition wrapped_text :: string where
  \<open>wrapped_text = ''[{"accuracy":1.5}]''\<close>

definition wrapped_env :: env where
  "wrapped_env =
     example_env\<lparr>gemini := (\<lambda>s. Some wrapped_text),
                 json_parse := (\<lambda>s. if s = wrapped_text
                                      then Inr (JArr [JObj [(''accuracy'', JNum (Num (3 / 2)))]] [])
                                      else Inl SyntaxError)\<rparr>"

text \<open>A stored quiz whose questions are an object, and one whose questions are a sequence.\<close>

definition object_quiz :: quiz where
  "object_quiz =
     \<lparr>quiz_id = ''quiz-0'', quiz_lessonId = ''lesson-0'',
      quiz_questions = JObj [(''questions'', JArr [JStr ''q''] [])]\<rparr>"

definition sequence_quiz :: quiz where
  "sequence_quiz =
     \<lparr>quiz_id = ''quiz-0'', quiz_lessonId = ''lesson-0'',
      quiz_questions = JArr [JStr ''q''] []\<rparr>"

text \<open>
  What the quiz step of \<open>generateLesson\<close> (lines 201 to 205) can leave in the trace:
  the events of \<open>generateQuizInternal\<close> and the line of its \<open>catch\<close>.
\<close>

definition cascade_events :: "event list" where
  "cascade_events =
     [Db InternalLessonFind, Model GenQuiz, Log ''Quiz JSON generation failed:'',
      Db QuizCreate, Log ''Auto quiz generation failed:'']"

text \<open>The creation of the quiz row fails.\<close>

definition quiz_fault_env :: env where
  "quiz_fault_env = example_env\<lparr>db_fault := (db_fault example_env)(QuizCreate := True)\<rparr>"

text \<open>The model answers a lesson request with a fenced object that has one key.\<close>

definition grammar_text :: string where
  \<open>grammar_text = fence @ ''json'' @ [CHR 0x0A] @ ''{"grammar":"ok"}'' @ [CHR 0x0A] @ fence\<close>

definition grammar_env :: env where
  \<open>grammar_env =
     example_env\<lparr>gemini := (\<lambda>s. Some grammar_text),
                 json_parse := (\<lambda>s. if s = ''{"grammar":"ok"}''
                                      then Inr (JObj [(''grammar'', JStr ''ok'')])
                                      else Inl SyntaxError)\<rparr>\<close>

text \<open>
  The model answers a pronunciation request with prose; the model answers it with the
  JSON text of the fixed feedback for \<open>Hola amigo\<close>.
\<close>

definition prose_env :: env where
  "prose_env = example_env\<lparr>gemini := (\<lambda>s. Some ''Sorry, I cannot help with that.'')\<rparr>"

definition same_text :: string where
  \<open>same_text =
     ''{"accuracy":0.7,"feedback":"We received your pronunciation attempt for ''
     @ [CHR 0x5C, CHR 0x22] @ ''Hola amigo'' @ [CHR 0x5C, CHR 0x22]
     @ ''. Here are general tips to improve.","suggestions":[''
     @ ''"Speak slowly and clearly, then speed up gradually",''
     @ ''"Repeat the phrase 3 times focusing on vowel sounds",''
     @ ''"Record again in a quiet room with mic close to you"],''
     @ ''"phonemes":[{"sound":"Hola","accuracy":0.7,"feedback":"Focus on clear articulation."}]}''\<close>

definition same_env :: env where
  "same_env =
     example_env\<lparr>gemini := (\<lambda>s. Some same_text),
                 json_parse := (\<lambda>s. if s = same_text then Inr (fallback_feedback ''Hola amigo'')
                                      else Inl SyntaxError)\<rparr>"

text \<open>
  The model answers a quiz prompt with one question that has a single option and the
  correct answer 9.
\<close>

definition bad_question :: json where
  "bad_question =
     JObj [(''question'', JStr ''q''), (''options'', JArr [JStr ''a''] []),
           (''correctAnswer'', JNum (Num 9))]"

definition bad_quiz_text :: string where
  \<open>bad_quiz_text = ''[{"question":"q","options":["a"],"correctAnswer":9}]''\<close>

definition bad_quiz_env :: env where
  "bad_quiz_env =
     example_env\<lparr>gemini := (\<lambda>s. Some bad_quiz_text),
                 json_parse := (\<lambda>s. if s = bad_quiz_text then Inr (JArr [bad_question] [])
                                      else Inl SyntaxError)\<rparr>"

text \<open>
  A fenced \<open>5\<close> whose marker carries the tag \<open>js\<close>, and a \<open>JSON.parse\<close> that is right on
  the texts this run hands to it: it parses \<open>5\<close> and throws on the rest.
\<close>

definition js_text :: string where
  "js_text = fence @ ''js'' @ [CHR 0x0A] @ ''5'' @ [CHR 0x0A] @ fence"

definition parse_five :: "string \<Rightarrow> error + json" where
  "parse_five s = (if s = ''5'' then Inr (JNum (Num 5)) else Inl SyntaxError)"

section \<open>The status codes of the specification\<close>

text \<open>
  The required fields of each endpoint, as section 6 of the specification lists them: a
  request misses one when the field is absent or empty.
\<close>

fun missing_fields :: "route \<Rightarrow> request \<Rightarrow> bool" where
  "missing_fields GenerateLesson req = (required (languageId req) = None \<or> level req = None)"
| "missing_fields GenerateQuiz req = (required (lessonId req) = None)"
| "missing_fields LessonContent req = False"
| "missing_fields ConversationPrompt req =
     (required (languageId req) = None \<or> level req = None)"
| "missing_fields ConversationResponse req =
     (required (languageId req) = None \<or> required (message req) = None)"
| "missing_fields PronunciationFeedback req =
     (required (languageId req) = None \<or> required (audioData req) = None
      \<or> required (targetText req) = None \<or> level req = None)"

text \<open>The entity a request refers to is not stored.\<close>

definition language_unknown :: "request \<Rightarrow> world \<Rightarrow> bool" where
  "language_unknown req w =
     (case languageId req of
        None \<Rightarrow> True
      | Some lid \<Rightarrow> List.find (\<lambda>l. lang_id l = lid) (languages w) = None)"

fun entity_unknown :: "route \<Rightarrow> request \<Rightarrow> world \<Rightarrow> bool" where
  "entity_unknown GenerateQuiz req w =
     (case lessonId req of
        None \<Rightarrow> True
      | Some lid \<Rightarrow> List.find (\<lambda>l. lesson_id l = lid) (lessons w) = None)"
| "entity_unknown LessonContent req w =
     (List.find (\<lambda>l. lesson_id l = param_lessonId req) (lessons w) = None)"
| "entity_unknown r req w = language_unknown req w"

text \<open>The Prisma call that looks the entity up.\<close>

fun lookup_site :: "route \<Rightarrow> db_site" where
  "lookup_site GenerateLesson = LessonLanguageFind"
| "lookup_site GenerateQuiz = QuizLessonFind"
| "lookup_site LessonContent = ContentLessonFind"
| "lookup_site ConversationPrompt = ConvLanguageFind"
| "lookup_site ConversationResponse = ReplyLanguageFind"
| "lookup_site PronunciationFeedback = PronLanguageFind"

text \<open>
  The Prisma calls a controller makes after it has found the entity, and whose failure
  reaches the \<open>catch\<close> of the controller. The storing of the conversation exchange and
  the calls of the quiz step of \<open>generateLesson\<close> are not among them: their failure is
  logged and dropped.
\<close>

fun later_sites :: "route \<Rightarrow> request \<Rightarrow> world \<Rightarrow> db_site list" where
  "later_sites GenerateLesson req w = [LessonCreate, ProgressCreate]"
| "later_sites GenerateQuiz req w =
     (case lessonId req of
        None \<Rightarrow> []
      | Some lid \<Rightarrow> if quizzes_of w lid = [] then [InternalLessonFind, QuizCreate] else [])"
| "later_sites LessonContent req w = []"
| "later_sites ConversationPrompt req w = [ConvCreate]"
| "later_sites ConversationResponse req w = []"
| "later_sites PronunciationFeedback req w = [PronCreate]"

text \<open>
  The model call whose failure reaches the \<open>catch\<close> of the controller: the one of
  \<open>getConversationResponse\<close>. The other controllers replace a failed generation by their
  fixed content.
\<close>

definition reply_fails :: "route \<Rightarrow> env \<Rightarrow> bool" where
  "reply_fails r env =
     (r = ConversationResponse \<and> (\<not> api_key env \<or> gemini env GenReply = None))"

text \<open>The model replies, and the storing of the conversation exchange fails.\<close>

definition exchange_fault_env :: env where
  "exchange_fault_env =
     example_env\<lparr>gemini := (\<lambda>s. Some ''Muy bien.''), db_fault := (\<lambda>s. s = ExchangeCreate)\<rparr>"

text \<open>A request with Basic credentials in its header.\<close>

definition basic_request :: request where
  "basic_request =
     example_request\<lparr>authorization := Some ''Basic dXNlcjpwYXNz'', req_user := None\<rparr>"

text \<open>A pronunciation request whose token has expired.\<close>

definition expired_request :: request where
  "expired_request = example_request\<lparr>authorization := Some ''Bearer expired'', req_user := None\<rparr>"

section \<open>Properties of extraction\<close>

lemma greedy_to_last_eq:
  "greedy_to_last c xs =
     (if c \<in> set xs then Some (rev (dropWhile (\<lambda>y. y \<noteq> c) (rev xs))) else None)"
  by (induction xs) (auto simp: dropWhile_append)

lemma dropWhile_Cons_tail_subset:
  assumes "dropWhile P xs = y # ys" and "c \<in> set ys"
  shows "c \<in> set xs"
proof -
  have "c \<in> set (dropWhile P xs)" using assms by simp
  then show ?thesis by (rule set_dropWhileD)
qed

lemma regex_span_eq: "regex_span opn cls s = span_first_last opn cls s"
proof (induction s)
  case Nil
  show ?case by (simp add: span_first_last_def)
next
  case (Cons x xs)
  show ?case
  proof (cases "x = opn")
    case True
    then show ?thesis
      by (cases "cls \<in> set xs")
        (auto simp: span_first_last_def greedy_to_last_eq Cons.IH split: list.splits
          dest: dropWhile_Cons_tail_subset)
  next
    case False
    then show ?thesis
      using Cons.IH by (simp add: span_first_last_def)
  qed
qed

lemma lower_char_backtick: "(lower_char c = CHR 0x60) = (c = CHR 0x60)"
proof (cases "65 \<le> (of_char c :: nat) \<and> (of_char c :: nat) \<le> 90")
  case False
  then show ?thesis by (auto simp: lower_char_def Let_def)
next
  case True
  have "of_char (char_of ((of_char c :: nat) + 32)) = ((of_char c :: nat) + 32) mod 256"
    by (simp only: of_char_of)
  with True have v: "(of_char (lower_char c) :: nat) = of_char c + 32"
    by (simp add: lower_char_def Let_def)
  have "lower_char c \<noteq> CHR 0x60"
  proof
    assume "lower_char c = CHR 0x60"
    then have "(of_char (lower_char c) :: nat) = 96" by simp
    with v True show False by simp
  qed
  moreover have "c \<noteq> CHR 0x60" using True by auto
  ultimately show ?thesis by simp
qed

lemma lower_fence: "(map lower_char xs = fence) = (xs = fence)"
  by (auto simp: fence_def map_eq_Cons_conv lower_char_backtick)

lemma take_fence_length: "take 3 s = fence \<Longrightarrow> 3 \<le> length s"
  by (auto simp: fence_def dest: arg_cong [where f = length])

lemma fence_length: "length fence = 3"
  by (simp add: fence_def)

lemma starts_with_ci_fence: "starts_with_ci fence s = (take 3 s = fence)"
  using take_fence_length [of s]
  by (auto simp: starts_with_ci_def lower_fence fence_length)

lemma take_seven: "take 7 s = take 3 s @ take 4 (drop 3 s)"
proof -
  have "take (3 + 4) s = take 3 s @ take 4 (drop 3 s)" by (rule take_add)
  then show ?thesis by simp
qed

lemma starts_with_ci_fence_json:
  "starts_with_ci (fence @ ''json'') s
     = (take 3 s = fence \<and> map lower_char (take 4 (drop 3 s)) = ''json'')"
proof -
  have l: "length (map lower_char (take 4 (drop 3 s))) = 4 \<Longrightarrow> 7 \<le> length s"
    by simp
  have "map lower_char (take 4 (drop 3 s)) = ''json'' \<Longrightarrow> 7 \<le> length s"
    by (rule l) simp
  moreover have "length (fence @ ''json'') = 7" by (simp add: fence_length)
  moreover have "(map lower_char (take 3 s) @ map lower_char (take 4 (drop 3 s)) = fence @ ''json'')
      = (map lower_char (take 3 s) = fence \<and> map lower_char (take 4 (drop 3 s)) = ''json'')"
    if "7 \<le> length s"
    using that by (subst append_eq_append_conv) (simp_all add: fence_length)
  ultimately show ?thesis
    by (auto simp: starts_with_ci_def take_seven lower_fence)
qed

text \<open>
  What the three replacements and the trim of the source do: outside the case of a second
  marker after a marker tagged \<open>json\<close>, they strip the fences as the specification words
  it, with \<open>json\<close> as the only language tag.
\<close>

lemma cleaned_of_spec:
  assumes "\<not> double_marker s"
  shows "cleaned_of s = strip_fences_spec json_tag s"
proof (cases "take 3 s = fence \<and> map lower_char (take 4 (drop 3 s)) = ''json''")
  case True
  then have n: "take 3 (dropWhile is_ws (drop 7 s)) \<noteq> fence"
    using assms by (simp add: double_marker_def)
  have d: "drop 4 (drop 3 s) = drop 7 s" by simp
  show ?thesis
    using True n
    by (simp add: cleaned_of_def strip_fences_spec_def strip_fence_json_def strip_fence_def
        strip_end_fence_def ends_with_def starts_with_ci_fence starts_with_ci_fence_json
        json_tag_def d Let_def fence_length)
next
  case False
  then show ?thesis
    by (auto simp: cleaned_of_def strip_fences_spec_def strip_fence_json_def strip_fence_def
        strip_end_fence_def ends_with_def starts_with_ci_fence starts_with_ci_fence_json
        json_tag_def Let_def fence_length)
qed

lemma safeJsonParse_candidates:
  "safeJsonParse parse raw =
     first_success parse (candidates (trim raw) (cleaned_of (trim raw)))"
  by (simp add: safeJsonParse_def first_success_def candidates_def attempt_def or_else_def
      regex_span_eq Let_def split: sum.splits option.splits)

text \<open>
  Claim C1, as stated, fails. Section 4.3 strips a marker with or without a language tag.
  For a fenced \<open>5\<close> tagged \<open>js\<close> the second strategy of the specification parses \<open>5\<close>;
  the source leaves the tag in the text, no strategy parses, and it throws.
\<close>

theorem fence_language_tag_counterexample:
  "strip_fences_spec any_tag (trim js_text) = ''5''
   \<and> extract_spec any_tag parse_five js_text = Inr (JNum (Num 5))
   \<and> cleaned_of (trim js_text) = ''js'' @ [CHR 0x0A] @ ''5''
   \<and> safeJsonParse parse_five js_text = Inl ExtractionError"
  by (simp add: safeJsonParse_candidates extract_spec_def first_success_def candidates_def
      attempt_def span_first_last_def parse_five_def js_text_def
      strip_fences_spec_def any_tag_def is_letter_def
      cleaned_of_def strip_fence_json_def strip_fence_def strip_end_fence_def
      starts_with_ci_def ends_with_def lower_char_def trim_def is_ws_def fence_def)

text \<open>
  Claim C1, amended. For every raw text \<open>safeJsonParse\<close> tries, in this order, the
  trimmed text, the text without its fences, the span from the first \<open>{\<close> to the last
  \<open>}\<close> of that text and the span from its first \<open>[\<close> to its last \<open>]\<close>, and returns the
  value of the first that parses. It throws only when all four fail, and what it throws
  then is the extraction error: no failure of \<open>JSON.parse\<close> escapes. The text without
  its fences is the text of the specification when \<open>json\<close>, in any case, is the only
  language tag a marker may carry; a marker with another tag keeps the tag. The text that
  goes on with a second marker after a marker tagged \<open>json\<close> is left aside in this.
\<close>

theorem safeJsonParse_strategies:
  "safeJsonParse parse raw =
     first_success parse (candidates (trim raw) (cleaned_of (trim raw)))
   \<and> (\<not> double_marker (trim raw) \<longrightarrow>
        cleaned_of (trim raw) = strip_fences_spec json_tag (trim raw)
        \<and> safeJsonParse parse raw = extract_spec json_tag parse raw)
   \<and> isl (safeJsonParse parse raw) =
       list_all (\<lambda>c. attempt parse c = None) (candidates (trim raw) (cleaned_of (trim raw)))
   \<and> (case safeJsonParse parse raw of Inl e \<Rightarrow> e = ExtractionError | Inr v \<Rightarrow> True)"
proof (intro conjI impI)
  show "safeJsonParse parse raw =
     first_success parse (candidates (trim raw) (cleaned_of (trim raw)))"
    by (rule safeJsonParse_candidates)
next
  assume "\<not> double_marker (trim raw)"
  then show c: "cleaned_of (trim raw) = strip_fences_spec json_tag (trim raw)"
    by (rule cleaned_of_spec)
  show "safeJsonParse parse raw = extract_spec json_tag parse raw"
    by (simp add: safeJsonParse_candidates extract_spec_def c)
next
  show "isl (safeJsonParse parse raw) =
       list_all (\<lambda>c. attempt parse c = None) (candidates (trim raw) (cleaned_of (trim raw)))"
    by (simp add: safeJsonParse_candidates first_success_def candidates_def
        split: option.splits)
next
  show "case safeJsonParse parse raw of Inl e \<Rightarrow> e = ExtractionError | Inr v \<Rightarrow> True"
    by (simp add: safeJsonParse_candidates first_success_def split: list.splits)
qed

theorem safeJsonParse_strategies_witness:
  \<open>\<not> double_marker (trim grammar_text)
   \<and> cleaned_of (trim grammar_text) = strip_fences_spec json_tag (trim grammar_text)
   \<and> strip_fences_spec json_tag (trim grammar_text) = ''{"grammar":"ok"}''
   \<and> safeJsonParse (json_parse grammar_env) grammar_text
       = extract_spec json_tag (json_parse grammar_env) grammar_text
   \<and> extract_spec json_tag (json_parse grammar_env) grammar_text
       = Inr (JObj [(''grammar'', JStr ''ok'')])\<close>
proof -
  have h: "\<not> double_marker (trim grammar_text)"
    by (simp add: double_marker_def grammar_text_def trim_def is_ws_def fence_def
        lower_char_def)
  have s: \<open>strip_fences_spec json_tag (trim grammar_text) = ''{"grammar":"ok"}''\<close>
    by (simp add: strip_fences_spec_def json_tag_def grammar_text_def trim_def is_ws_def
        fence_def lower_char_def)
  have e: "extract_spec json_tag (json_parse grammar_env) grammar_text
       = Inr (JObj [(''grammar'', JStr ''ok'')])"
    by (simp add: extract_spec_def s first_success_def candidates_def attempt_def
        grammar_env_def)
  from safeJsonParse_strategies [of "json_parse grammar_env" grammar_text] h
  have "cleaned_of (trim grammar_text) = strip_fences_spec json_tag (trim grammar_text)
        \<and> safeJsonParse (json_parse grammar_env) grammar_text
            = extract_spec json_tag (json_parse grammar_env) grammar_text"
    by blast
  with h s e show ?thesis by blast
qed

section \<open>Properties of pronunciation feedback\<close>

lemma bad_accuracy_iff: "bad_accuracy a = (\<not> unit_accuracy a)"
  by (cases a rule: bad_accuracy.cases) (auto simp: unit_accuracy_def)

lemma validate_feedback_accuracy:
  assumes "validate_feedback doc = Inr fb"
  shows "\<exists>a0. get_prop doc ''accuracy'' = Inr a0
     \<and> get_prop fb ''accuracy'' = Inr (if unit_accuracy a0 then a0 else Some (JNum (Num (7 / 10))))"
proof (cases doc)
  case (JObj kvs)
  then show ?thesis using assms
    by (auto simp: validate_feedback_def bind_err_def bad_accuracy_iff update_conv'
        split: if_splits)
next
  case (JArr xs ps)
  then show ?thesis using assms
    by (auto simp: validate_feedback_def bind_err_def bad_accuracy_iff update_conv'
        split: if_splits)
qed (use assms in \<open>auto simp: validate_feedback_def bind_err_def\<close>)

lemma unit_accuracy_default: "unit_accuracy (Some (JNum (Num (7 / 10))))"
  by (simp add: unit_accuracy_def)

lemma fallback_feedback_accuracy:
  "get_prop (fallback_feedback t) ''accuracy'' = Inr (Some (JNum (Num (7 / 10))))"
  by (simp add: fallback_feedback_def)

lemma feedback_of_cases:
  "fst (feedback_of env t w) =
     (case bind_err (fst (callGeminiJSON env GenPronunciation w)) validate_feedback of
        Inr fb \<Rightarrow> fb | Inl e \<Rightarrow> fallback_feedback t)"
  by (simp add: feedback_of_def split: prod.splits sum.splits)

lemma feedback_of_rows:
  assumes "feedback_of env t w = (fb, w1)"
  shows "pron_rows w1 = pron_rows w"
  using assms
  by (auto simp: feedback_of_def callGeminiJSON_def emit_def split: prod.splits sum.splits if_splits)

lemma feedback_of_accuracy:
  "\<exists>a. get_prop (fst (feedback_of env t w)) ''accuracy'' = Inr a \<and> unit_accuracy a"
proof (cases "bind_err (fst (callGeminiJSON env GenPronunciation w)) validate_feedback")
  case (Inl e)
  then show ?thesis
    by (simp add: feedback_of_cases fallback_feedback_accuracy unit_accuracy_default)
next
  case (Inr fb)
  then obtain doc where "validate_feedback doc = Inr fb"
    by (auto simp: bind_err_def split: sum.splits)
  from validate_feedback_accuracy [OF this] Inr show ?thesis
    by (auto simp: feedback_of_cases unit_accuracy_default)
qed

lemma feedback_of_default:
  assumes "fst (callGeminiJSON env GenPronunciation w) = Inr doc"
    and "\<forall>a. get_prop doc ''accuracy'' = Inr a \<longrightarrow> \<not> unit_accuracy a"
  shows "get_prop (fst (feedback_of env t w)) ''accuracy'' = Inr (Some (JNum (Num (7 / 10))))"
proof (cases "validate_feedback doc")
  case (Inl e)
  then show ?thesis using assms(1)
    by (simp add: feedback_of_cases bind_err_def fallback_feedback_accuracy)
next
  case (Inr fb)
  from validate_feedback_accuracy [OF this] assms Inr show ?thesis
    by (auto simp: feedback_of_cases bind_err_def)
qed

lemma feedback_of_failure:
  assumes "isl (fst (callGeminiJSON env GenPronunciation w))"
  shows "fst (feedback_of env t w) = fallback_feedback t"
  using assms by (auto simp: feedback_of_cases bind_err_def isl_def)

lemma pronunciation_row:
  assumes "status (fst (getPronunciationFeedback env req w)) = 200"
  shows "\<exists>t u a. targetText req = Some t
      \<and> get_prop (fst (feedback_of env t (emit (Db PronLanguageFind) w))) ''accuracy'' = Inr a
      \<and> pron_rows (snd (getPronunciationFeedback env req w)) =
          pron_rows w @
            [\<lparr>pron_id = new_id env PronCreate, pron_userId = u, pron_sentence = t,
              pron_accuracy = a,
              pron_feedback = wire (fst (feedback_of env t (emit (Db PronLanguageFind) w)))\<rparr>]"
  using assms
  by (auto simp: getPronunciationFeedback_def catch_500_def find_language_def res_json_def
      create_pron_def emit_def required_def
      split: option.splits prod.splits sum.splits if_splits dest: feedback_of_rows)

text \<open>
  The accuracy that the controller reads from the feedback after the repairs, and writes
  to the accuracy column, is a number from 0 to 1: it is 0.7 when the extracted document
  has no accuracy, one that is not a number, or one outside that range, and also when the
  model call or the extraction failed. This is the value held in memory: for an array it
  is a named property, which the serialisation does not write.
\<close>

lemma accuracy_read_after_repairs:
  "(\<exists>a. get_prop (fst (feedback_of env t w)) ''accuracy'' = Inr a \<and> unit_accuracy a)
   \<and> (fst (callGeminiJSON env GenPronunciation w) = Inr doc
        \<and> (\<forall>a. get_prop doc ''accuracy'' = Inr a \<longrightarrow> \<not> unit_accuracy a)
      \<longrightarrow> get_prop (fst (feedback_of env t w)) ''accuracy'' = Inr (Some (JNum (Num (7 / 10)))))
   \<and> (isl (fst (callGeminiJSON env GenPronunciation w))
      \<longrightarrow> get_prop (fst (feedback_of env t w)) ''accuracy'' = Inr (Some (JNum (Num (7 / 10)))))
   \<and> (status (fst (getPronunciationFeedback env req w)) = 200
      \<longrightarrow> (\<exists>row. pron_rows (snd (getPronunciationFeedback env req w)) = pron_rows w @ [row]
             \<and> unit_accuracy (pron_accuracy row)))"
proof (intro conjI impI)
  show "\<exists>a. get_prop (fst (feedback_of env t w)) ''accuracy'' = Inr a \<and> unit_accuracy a"
    by (rule feedback_of_accuracy)
next
  assume "fst (callGeminiJSON env GenPronunciation w) = Inr doc
        \<and> (\<forall>a. get_prop doc ''accuracy'' = Inr a \<longrightarrow> \<not> unit_accuracy a)"
  then show "get_prop (fst (feedback_of env t w)) ''accuracy'' = Inr (Some (JNum (Num (7 / 10))))"
    using feedback_of_default by blast
next
  assume "isl (fst (callGeminiJSON env GenPronunciation w))"
  then show "get_prop (fst (feedback_of env t w)) ''accuracy'' = Inr (Some (JNum (Num (7 / 10))))"
    by (simp add: feedback_of_failure fallback_feedback_accuracy)
next
  assume ok: "status (fst (getPronunciationFeedback env req w)) = 200"
  from pronunciation_row [OF ok] obtain t0 u a where
    a: "get_prop (fst (feedback_of env t0 (emit (Db PronLanguageFind) w))) ''accuracy'' = Inr a"
    and r: "pron_rows (snd (getPronunciationFeedback env req w)) =
          pron_rows w @
            [\<lparr>pron_id = new_id env PronCreate, pron_userId = u, pron_sentence = t0,
              pron_accuracy = a,
              pron_feedback = wire (fst (feedback_of env t0 (emit (Db PronLanguageFind) w)))\<rparr>]"
    by blast
  from feedback_of_accuracy [of env t0 "emit (Db PronLanguageFind) w"] a
  have "unit_accuracy a" by auto
  with r show "\<exists>row. pron_rows (snd (getPronunciationFeedback env req w)) = pron_rows w @ [row]
             \<and> unit_accuracy (pron_accuracy row)"
    by simp
qed

text \<open>
  For a document that is an object the repaired accuracy is written: the feedback that is
  sent and stored carries an accuracy from 0 to 1.
\<close>

lemma map_of_wire:
  "map_of (map (map_prod id wire) kvs) k = map_option wire (map_of kvs k)"
  by (induction kvs) auto

lemma object_feedback_accuracy:
  assumes "validate_feedback (JObj kvs) = Inr fb"
  shows "\<exists>a. at_path (wire fb) [Key ''accuracy''] = Some a \<and> unit_accuracy (Some a)"
proof -
  from validate_feedback_accuracy [OF assms] obtain a0 where
    g: "get_prop fb ''accuracy'' =
        Inr (if unit_accuracy a0 then a0 else Some (JNum (Num (7 / 10))))"
    by blast
  obtain kvs1 where fb: "fb = JObj kvs1"
    using assms
    by (auto simp: validate_feedback_def bind_err_def split: if_splits)
  have "unit_accuracy (Some (JNum (Num (7 / 10))))"
    by (simp add: unit_accuracy_def)
  with g fb have u: "unit_accuracy (map_of kvs1 ''accuracy'')"
    by (auto split: if_splits)
  then obtain a where a: "map_of kvs1 ''accuracy'' = Some a"
    by (cases "map_of kvs1 ''accuracy''") (auto simp: unit_accuracy_def)
  with u have "unit_accuracy (Some (wire a))"
    by (auto simp: unit_accuracy_def split: json.splits jsnum.splits)
  with a show ?thesis
    by (simp add: fb map_of_wire)
qed

text \<open>
  Claim C4 holds of the accuracy column and of every document that is an object, and the
  source misses the document that is an array. The repairs assign \<open>accuracy\<close>,
  \<open>feedback\<close>, \<open>suggestions\<close> and \<open>phonemes\<close> to the array as named properties, and
  \<open>JSON.stringify\<close> writes the elements only. For the reply \<open>[]\<close> the request is
  answered 200 with the feedback \<open>[]\<close>, which has no accuracy, and stores that text, with
  0.7 in the accuracy column; for an array that wraps an accuracy of 1.5, the 1.5 is sent
  as it came.
\<close>

theorem pronunciation_array_document:
  "fst (callGeminiJSON array_env GenPronunciation example_world) = Inr (JArr [] [])
   \<and> status (fst (getPronunciationFeedback array_env example_request example_world)) = 200
   \<and> at_path (body (fst (getPronunciationFeedback array_env example_request example_world)))
        [Key ''feedback''] = Some (JArr [] [])
   \<and> at_path (body (fst (getPronunciationFeedback array_env example_request example_world)))
        [Key ''feedback'', Key ''accuracy''] = None
   \<and> map pron_feedback
         (pron_rows (snd (getPronunciationFeedback array_env example_request example_world)))
       = [JArr [] []]
   \<and> map pron_accuracy
         (pron_rows (snd (getPronunciationFeedback array_env example_request example_world)))
       = [Some (JNum (Num (7 / 10)))]
   \<and> status (fst (getPronunciationFeedback wrapped_env example_request example_world)) = 200
   \<and> at_path (body (fst (getPronunciationFeedback wrapped_env example_request example_world)))
        [Key ''feedback''] = Some (JArr [JObj [(''accuracy'', JNum (Num (3 / 2)))]] [])
   \<and> at_path (body (fst (getPronunciationFeedback wrapped_env example_request example_world)))
        [Key ''feedback'', Key ''accuracy''] = None
   \<and> \<not> unit_accuracy
         (at_path (body (fst (getPronunciationFeedback wrapped_env example_request
                               example_world)))
            [Key ''feedback'', Idx 0, Key ''accuracy''])"
  by (simp add: getPronunciationFeedback_def catch_500_def find_language_def res_json_def
      create_pron_def emit_def required_def feedback_of_def callGeminiJSON_def
      safeJsonParse_def or_else_def trim_def is_ws_def bind_err_def validate_feedback_def
      unit_accuracy_def wrapped_text_def good_attempt_def
      array_env_def wrapped_env_def example_env_def example_request_def example_world_def
      example_language_def example_user_def)

section \<open>Properties of the quiz and lesson endpoints\<close>

lemma find_Some_lesson_id:
  "List.find (\<lambda>l. lesson_id l = lid) ls = Some l \<Longrightarrow> lesson_id l = lid"
  by (auto simp: find_Some_iff)

text \<open>
  Claim C7, as stated, fails: the questions of the stored quiz are returned only when
  they are a sequence. Here the stored questions are an object and the response carries
  the empty sequence.
\<close>

theorem generateQuiz_existing_counterexample:
  "quizzes_of (example_world\<lparr>quizzes := [object_quiz]\<rparr>) ''lesson-0'' = [object_quiz]
   \<and> status (fst (generateQuiz example_env example_request
                    (example_world\<lparr>quizzes := [object_quiz]\<rparr>))) = 200
   \<and> at_path (body (fst (generateQuiz example_env example_request
                           (example_world\<lparr>quizzes := [object_quiz]\<rparr>))))
        [Key ''quiz'', Key ''questions''] = Some (JArr [] [])
   \<and> quiz_questions object_quiz \<noteq> JArr [] []"
  by (simp add: generateQuiz_def catch_500_def find_lesson_def quiz_json_def quizzes_of_def
      emit_def required_def res_json_def questions_or_empty_def object_quiz_def
      example_env_def example_request_def example_world_def example_lesson_def)

text \<open>
  Claim C7, amended. For a quiz request naming a lesson that has a stored quiz (the lookup
  not failing), the answer is 200 with the id and the lessonId of the first stored quiz and
  its questions when they are a sequence, the empty sequence otherwise. The only effect is
  the lookup: the model is not called and no quiz is created.
\<close>

theorem generateQuiz_returns_existing:
  assumes "required (lessonId req) = Some lid"
    and "\<not> db_fault env QuizLessonFind"
    and "List.find (\<lambda>l. lesson_id l = lid) (lessons w) = Some l"
    and "quizzes_of w lid = existing # others"
  shows "fst (generateQuiz env req w) =
           res_json 200
             (JObj [(''success'', JBool True),
                    (''quiz'',
                     JObj [(''id'', JStr (quiz_id existing)),
                           (''lessonId'', JStr lid),
                           (''questions'', questions_or_empty (quiz_questions existing))])])
         \<and> quiz_lessonId existing = lid
         \<and> snd (generateQuiz env req w) = emit (Db QuizLessonFind) w
         \<and> quizzes (snd (generateQuiz env req w)) = quizzes w
         \<and> trace (snd (generateQuiz env req w)) = trace w @ [Db QuizLessonFind]"
proof -
  have l: "lesson_id l = lid" using assms(3) by (rule find_Some_lesson_id)
  have q: "quizzes_of (emit (Db QuizLessonFind) w) lid = existing # others"
    using assms(4) by (simp add: quizzes_of_def emit_def)
  have "existing \<in> set (quizzes_of w lid)" using assms(4) by simp
  then have e: "quiz_lessonId existing = lid" by (simp add: quizzes_of_def)
  have r: "generateQuiz env req w =
     (res_json 200
        (JObj [(''success'', JBool True),
               (''quiz'',
                JObj [(''id'', JStr (quiz_id existing)),
                      (''lessonId'', JStr lid),
                      (''questions'', questions_or_empty (quiz_questions existing))])]),
      emit (Db QuizLessonFind) w)"
    using assms(1,2,3) l q e
    by (simp add: generateQuiz_def catch_500_def find_lesson_def quiz_json_def)
  show ?thesis using e by (simp add: r emit_def)
qed

theorem generateQuiz_returns_existing_witness:
  "required (lessonId example_request) = Some ''lesson-0''
   \<and> \<not> db_fault example_env QuizLessonFind
   \<and> quizzes_of (example_world\<lparr>quizzes := [sequence_quiz]\<rparr>) ''lesson-0'' = [sequence_quiz]
   \<and> fst (generateQuiz example_env example_request (example_world\<lparr>quizzes := [sequence_quiz]\<rparr>)) =
       res_json 200
         (JObj [(''success'', JBool True),
                (''quiz'',
                 JObj [(''id'', JStr ''quiz-0''),
                       (''lessonId'', JStr ''lesson-0''),
                       (''questions'', JArr [JStr ''q''] [])])])
   \<and> trace (snd (generateQuiz example_env example_request
                    (example_world\<lparr>quizzes := [sequence_quiz]\<rparr>))) = [Db QuizLessonFind]"
proof -
  let ?w = "example_world\<lparr>quizzes := [sequence_quiz]\<rparr>"
  have h1: "required (lessonId example_request) = Some ''lesson-0''"
    by (simp add: required_def example_request_def)
  have h2: "\<not> db_fault example_env QuizLessonFind"
    by (simp add: example_env_def)
  have h3: "List.find (\<lambda>l. lesson_id l = ''lesson-0'') (lessons ?w) = Some example_lesson"
    by (simp add: example_world_def example_lesson_def)
  have h4: "quizzes_of ?w ''lesson-0'' = sequence_quiz # []"
    by (simp add: quizzes_of_def sequence_quiz_def)
  have v: "quiz_id sequence_quiz = ''quiz-0''"
    "questions_or_empty (quiz_questions sequence_quiz) = JArr [JStr ''q''] []"
    "trace ?w = []"
    by (simp_all add: sequence_quiz_def questions_or_empty_def example_world_def)
  from generateQuiz_returns_existing [OF h1 h2 h3 h4] h1 h2 h4 v show ?thesis
    by (simp add: emit_def)
qed

text \<open>
  Claim C10. For a stored lesson without a quiz (the lookup not failing), the lesson
  endpoint answers 200 with \<open>success\<close> true and a quiz object whose id is the empty
  string and whose questions are the empty sequence; when the stored content is null, the
  content sent is the object with the five keys, empty.
\<close>

theorem getLessonContent_without_quiz:
  assumes "\<not> db_fault env ContentLessonFind"
    and "List.find (\<lambda>l. lesson_id l = param_lessonId req) (lessons w) = Some l"
    and "quizzes_of w (lesson_id l) = []"
  shows "status (fst (getLessonContent env req w)) = 200
     \<and> at_path (body (fst (getLessonContent env req w))) [Key ''success''] = Some (JBool True)
     \<and> at_path (body (fst (getLessonContent env req w))) [Key ''lesson'', Key ''quiz''] =
         Some (JObj [(''id'', JStr ''''), (''lessonId'', JStr (lesson_id l)),
                     (''questions'', JArr [] [])])
     \<and> (lesson_content l = JNull \<longrightarrow>
          at_path (body (fst (getLessonContent env req w))) [Key ''lesson'', Key ''content''] =
            Some (JObj [(''vocabulary'', JArr [] []), (''grammar'', JStr ''''),
                        (''examples'', JArr [] []), (''exercises'', JArr [] []),
                        (''culturalNotes'', JStr '''')]))"
proof -
  have q: "quizzes_of (emit (Db ContentLessonFind) w) (lesson_id l) = []"
    using assms(3) by (simp add: quizzes_of_def emit_def)
  show ?thesis using assms(1,2) q
    by (simp add: getLessonContent_def catch_500_def find_lesson_def res_json_def
        content_quiz_json_def empty_content_def)
qed

theorem getLessonContent_without_quiz_witness:
  "\<not> db_fault example_env ContentLessonFind
   \<and> quizzes_of example_world (lesson_id example_lesson) = []
   \<and> lesson_content example_lesson = JNull
   \<and> status (fst (getLessonContent example_env example_request example_world)) = 200
   \<and> at_path (body (fst (getLessonContent example_env example_request example_world)))
        [Key ''lesson'', Key ''quiz''] =
       Some (JObj [(''id'', JStr ''''), (''lessonId'', JStr ''lesson-0''),
                   (''questions'', JArr [] [])])
   \<and> at_path (body (fst (getLessonContent example_env example_request example_world)))
        [Key ''lesson'', Key ''content''] =
       Some (JObj [(''vocabulary'', JArr [] []), (''grammar'', JStr ''''),
                   (''examples'', JArr [] []), (''exercises'', JArr [] []),
                   (''culturalNotes'', JStr '''')])"
proof -
  have h1: "\<not> db_fault example_env ContentLessonFind"
    by (simp add: example_env_def)
  have h2: "List.find (\<lambda>l. lesson_id l = param_lessonId example_request)
              (lessons example_world) = Some example_lesson"
    by (simp add: example_request_def example_world_def example_lesson_def)
  have h3: "quizzes_of example_world (lesson_id example_lesson) = []"
    by (simp add: quizzes_of_def example_world_def)
  have h4: "lesson_content example_lesson = JNull" "lesson_id example_lesson = ''lesson-0''"
    by (simp_all add: example_lesson_def)
  from getLessonContent_without_quiz [OF h1 h2 h3] h1 h3 h4 show ?thesis
    by simp
qed

section \<open>Properties of lesson generation\<close>

lemma callGeminiJSON_fst:
  "fst (callGeminiJSON env site w) =
     (if \<not> api_key env then Inl ConfigurationError
      else case gemini env site of
             None \<Rightarrow> Inl UpstreamError
           | Some raw \<Rightarrow> safeJsonParse (json_parse env) raw)"
  by (simp add: callGeminiJSON_def)

lemma lesson_content_of_fst:
  "fst (lesson_content_of env w) =
     (case fst (callGeminiJSON env GenLesson w) of Inr doc \<Rightarrow> doc | Inl e \<Rightarrow> fallback_lesson)"
  by (simp add: lesson_content_of_def split: prod.splits sum.splits)

lemma lesson_content_of_snd:
  "\<exists>evs. snd (lesson_content_of env w) = w\<lparr>trace := trace w @ evs\<rparr>
     \<and> set evs \<inter> set cascade_events = {}"
proof (cases "api_key env")
  case False
  then have "snd (lesson_content_of env w) =
      w\<lparr>trace := trace w @ [Log ''Lesson JSON generation failed:'']\<rparr>"
    by (simp add: lesson_content_of_def callGeminiJSON_def emit_def)
  then show ?thesis by (auto simp: cascade_events_def)
next
  case True
  show ?thesis
  proof (cases "fst (callGeminiJSON env GenLesson w)")
    case (Inl e)
    then have "snd (lesson_content_of env w) =
        w\<lparr>trace := trace w @ [Model GenLesson, Log ''Lesson JSON generation failed:'']\<rparr>"
      using True
      by (auto simp: lesson_content_of_def callGeminiJSON_def emit_def split: option.splits)
    then show ?thesis by (auto simp: cascade_events_def)
  next
    case (Inr doc)
    then have "snd (lesson_content_of env w) = w\<lparr>trace := trace w @ [Model GenLesson]\<rparr>"
      using True
      by (auto simp: lesson_content_of_def callGeminiJSON_def emit_def split: option.splits)
    then show ?thesis by (auto simp: cascade_events_def)
  qed
qed

lemma generateQuizInternal_frame:
  assumes "generateQuizInternal env lid w = (r, w1)"
  shows "lessons w1 = lessons w \<and> progresses w1 = progresses w
     \<and> (\<exists>evs. trace w1 = trace w @ Db InternalLessonFind # evs)"
  using assms
  by (auto simp: generateQuizInternal_def find_lesson_def callGeminiJSON_def create_quiz_def
      emit_def split: option.splits prod.splits sum.splits if_splits)

lemma auto_quiz_frame:
  "lessons (auto_quiz env lid w) = lessons w \<and> progresses (auto_quiz env lid w) = progresses w
     \<and> (\<exists>evs. trace (auto_quiz env lid w) = trace w @ Db InternalLessonFind # evs)"
proof (cases "generateQuizInternal env lid w")
  case (Pair r w1)
  from generateQuizInternal_frame [OF Pair] Pair show ?thesis
    by (cases r) (auto simp: auto_quiz_def emit_def)
qed

lemma auto_quiz_logged:
  assumes "db_fault env InternalLessonFind \<or> db_fault env QuizCreate"
    and "List.find (\<lambda>l. lesson_id l = lid) (lessons w) \<noteq> None"
  shows "Log ''Auto quiz generation failed:'' \<in> set (trace (auto_quiz env lid w))"
  using assms
  by (auto simp: auto_quiz_def generateQuizInternal_def find_lesson_def callGeminiJSON_def
      create_quiz_def emit_def split: option.splits prod.splits sum.splits if_splits)

text \<open>The response of \<open>generateLesson\<close>, written without the quiz step.\<close>

lemma generateLesson_response:
  "fst (generateLesson env req w) =
     (case (required (languageId req), level req) of
        (Some lid, Some lvl) \<Rightarrow>
          (case required (userId_of req) of
             None \<Rightarrow> res_json 401 (failure ''message'' ''Unauthorized'')
           | Some uid \<Rightarrow>
               if db_fault env LessonLanguageFind
               then res_json 500 (failure ''message'' ''Error generating lesson'')
               else (case List.find (\<lambda>l. lang_id l = lid) (languages w) of
                       None \<Rightarrow> res_json 404 (failure ''message'' ''Language not found'')
                     | Some lang \<Rightarrow>
                         if db_fault env LessonCreate \<or> db_fault env ProgressCreate
                         then res_json 500 (failure ''message'' ''Error generating lesson'')
                         else res_json 200
                                (JObj [(''success'', JBool True),
                                       (''lesson'',
                                        lesson_json
                                          \<lparr>lesson_id = new_id env LessonCreate,
                                           lesson_title =
                                             (case required (topic req) of
                                                Some t \<Rightarrow> t
                                              | None \<Rightarrow> level_name lvl @ '' '' @ lang_name lang @ '' Lesson''),
                                           lesson_description = ''AI-generated lesson'',
                                           lesson_languageId = lid,
                                           lesson_level = lvl,
                                           lesson_content =
                                             wire (fst (lesson_content_of env (emit (Db LessonLanguageFind) w)))\<rparr>
                                          (fst (lesson_content_of env (emit (Db LessonLanguageFind) w)))),
                                       (''progress'',
                                        progress_json
                                          \<lparr>progress_id = new_id env ProgressCreate,
                                           progress_userId = uid,
                                           progress_lessonId = new_id env LessonCreate,
                                           progress_score = 0,
                                           progress_completed = False\<rparr>)])))
      | other \<Rightarrow> res_json 400 (failure ''message'' ''languageId and level are required''))"
  by (auto simp: generateLesson_def catch_500_def find_language_def create_lesson_def
      create_progress_def
      split: option.splits prod.splits sum.splits)

text \<open>The world after \<open>generateLesson\<close>.\<close>

lemma generateLesson_world:
  "snd (generateLesson env req w) =
     (case (required (languageId req), level req) of
        (Some lid, Some lvl) \<Rightarrow>
          (case required (userId_of req) of
             None \<Rightarrow> w
           | Some uid \<Rightarrow>
               if db_fault env LessonLanguageFind
               then emit (Log ''Error generating lesson:'') (emit (Db LessonLanguageFind) w)
               else (case List.find (\<lambda>l. lang_id l = lid) (languages w) of
                       None \<Rightarrow> emit (Db LessonLanguageFind) w
                     | Some lang \<Rightarrow>
                         if db_fault env LessonCreate
                         then emit (Log ''Error generating lesson:'')
                                (emit (Db LessonCreate)
                                   (snd (lesson_content_of env (emit (Db LessonLanguageFind) w))))
                         else (case create_progress env
                                      \<lparr>progress_id = new_id env ProgressCreate,
                                       progress_userId = uid,
                                       progress_lessonId = new_id env LessonCreate,
                                       progress_score = 0,
                                       progress_completed = False\<rparr>
                                      (auto_quiz env (new_id env LessonCreate)
                                         (emit (Db LessonCreate)
                                            (snd (lesson_content_of env (emit (Db LessonLanguageFind) w))
                                               \<lparr>lessons :=
                                                  lessons (snd (lesson_content_of env (emit (Db LessonLanguageFind) w)))
                                                  @ [\<lparr>lesson_id = new_id env LessonCreate,
                                                      lesson_title =
                                                        (case required (topic req) of
                                                           Some t \<Rightarrow> t
                                                         | None \<Rightarrow> level_name lvl @ '' '' @ lang_name lang @ '' Lesson''),
                                                      lesson_description = ''AI-generated lesson'',
                                                      lesson_languageId = lid,
                                                      lesson_level = lvl,
                                                      lesson_content =
                                                        wire (fst (lesson_content_of env (emit (Db LessonLanguageFind) w)))\<rparr>]\<rparr>))) of
                                 (Inl e, w5) \<Rightarrow> emit (Log ''Error generating lesson:'') w5
                               | (Inr p, w5) \<Rightarrow> w5)))
      | other \<Rightarrow> w)"
  by (auto simp: generateLesson_def catch_500_def find_language_def create_lesson_def
      split: option.splits prod.splits sum.splits)

lemma emit_fields:
  "trace (emit e w) = trace w @ [e]"
  "lessons (emit e w) = lessons w"
  "quizzes (emit e w) = quizzes w"
  "progresses (emit e w) = progresses w"
  "languages (emit e w) = languages w"
  by (simp_all add: emit_def)

lemma not_cascade [simp]:
  "Db LessonLanguageFind \<notin> set cascade_events"
  "Db LessonCreate \<notin> set cascade_events"
  "Log ''Error generating lesson:'' \<notin> set cascade_events"
  by (simp_all add: cascade_events_def)

text \<open>
  A request that passes the checks, finds its language and creates its lesson: the lesson
  row is stored with the content as it is, and the quiz step starts right after.
\<close>

lemma generateLesson_persisted:
  assumes "required (languageId req) = Some lid" and "level req = Some lvl"
    and "required (userId_of req) = Some uid"
    and "\<not> db_fault env LessonLanguageFind"
    and "List.find (\<lambda>l. lang_id l = lid) (languages w) = Some lang"
    and "\<not> db_fault env LessonCreate"
  shows "\<exists>pre rest row.
      trace (snd (generateLesson env req w)) =
        trace w @ pre @ Db LessonCreate # Db InternalLessonFind # rest
    \<and> set pre \<inter> set cascade_events = {}
    \<and> lessons (snd (generateLesson env req w)) = lessons w @ [row]
    \<and> lesson_id row = new_id env LessonCreate
    \<and> lesson_content row =
        wire (fst (lesson_content_of env (emit (Db LessonLanguageFind) w)))
    \<and> set (trace (auto_quiz env (new_id env LessonCreate)
              (emit (Db LessonCreate)
                 (snd (lesson_content_of env (emit (Db LessonLanguageFind) w))
                    \<lparr>lessons := lessons w @ [row]\<rparr>))))
        \<subseteq> set (trace (snd (generateLesson env req w)))"
proof -
  let ?R = "snd (generateLesson env req w)"
  let ?w0 = "emit (Db LessonLanguageFind) w"
  obtain evs where c: "snd (lesson_content_of env ?w0) = ?w0\<lparr>trace := trace ?w0 @ evs\<rparr>"
    and q: "set evs \<inter> set cascade_events = {}"
    using lesson_content_of_snd [of env ?w0] by blast
  let ?row = "\<lparr>lesson_id = new_id env LessonCreate,
      lesson_title =
        (case required (topic req) of
           Some t \<Rightarrow> t
         | None \<Rightarrow> level_name lvl @ '' '' @ lang_name lang @ '' Lesson''),
      lesson_description = ''AI-generated lesson'',
      lesson_languageId = lid,
      lesson_level = lvl,
      lesson_content = wire (fst (lesson_content_of env ?w0))\<rparr>"
  let ?w3 = "emit (Db LessonCreate)
      (snd (lesson_content_of env ?w0)
         \<lparr>lessons := lessons (snd (lesson_content_of env ?w0)) @ [?row]\<rparr>)"
  let ?w4 = "auto_quiz env (new_id env LessonCreate) ?w3"
  obtain evs2 where a: "trace ?w4 = trace ?w3 @ Db InternalLessonFind # evs2"
    and l4: "lessons ?w4 = lessons ?w3"
    using auto_quiz_frame [of env "new_id env LessonCreate" ?w3] by blast
  have t3: "trace ?w3 = trace w @ (Db LessonLanguageFind # evs) @ [Db LessonCreate]"
    and l3: "lessons ?w3 = lessons w @ [?row]"
    and l2: "lessons (snd (lesson_content_of env ?w0)) = lessons w"
    by (simp_all add: c emit_fields)
  have "\<exists>tail. trace ?R = trace ?w4 @ tail \<and> lessons ?R = lessons ?w4"
    using assms by (auto simp: generateLesson_world create_progress_def emit_fields)
  then obtain tail where t: "trace ?R = trace ?w4 @ tail"
    and l: "lessons ?R = lessons ?w4" by blast
  have tr: "trace ?R = trace w @ (Db LessonLanguageFind # evs)
        @ Db LessonCreate # Db InternalLessonFind # (evs2 @ tail)"
    by (simp add: t a t3)
  have ls: "lessons ?R = lessons w @ [?row]"
    by (simp add: l l4 l3)
  have sub: "set (trace ?w4) \<subseteq> set (trace ?R)"
    by (simp add: t)
  show ?thesis
    apply (rule exI [where x = "Db LessonLanguageFind # evs"])
    apply (rule exI [where x = "evs2 @ tail"])
    apply (rule exI [where x = ?row])
    using tr ls q sub l2 by auto
qed

text \<open>
  The events of one call of \<open>generateLesson\<close>: none of the quiz step comes before the
  creation of the lesson, and when that creation is the start of the rest, the lesson row is
  stored.
\<close>

lemma generateLesson_order:
  "\<exists>pre post.
      trace (snd (generateLesson env req w)) = trace w @ pre @ post
    \<and> set pre \<inter> set cascade_events = {}
    \<and> (post = [] \<or>
        (\<exists>rest row. post = Db LessonCreate # rest
           \<and> lessons (snd (generateLesson env req w)) = lessons w @ [row]))"
proof -
  let ?R = "snd (generateLesson env req w)"
  let ?w0 = "emit (Db LessonLanguageFind) w"
  obtain evs where c: "snd (lesson_content_of env ?w0) = ?w0\<lparr>trace := trace ?w0 @ evs\<rparr>"
    and q: "set evs \<inter> set cascade_events = {}"
    using lesson_content_of_snd [of env ?w0] by blast
  have quiet: "trace ?R = trace w @ evs0 \<Longrightarrow> set evs0 \<inter> set cascade_events = {}
      \<Longrightarrow> ?thesis" for evs0
    by (rule exI [where x = evs0], rule exI [where x = "[]"]) simp
  show ?thesis
  proof (cases "required (languageId req)")
    case None
    then have "trace ?R = trace w @ []" by (simp add: generateLesson_world)
    then show ?thesis by (rule quiet) simp
  next
    case lid: (Some lid)
    show ?thesis
    proof (cases "level req")
      case None
      then have "trace ?R = trace w @ []" using lid by (simp add: generateLesson_world)
      then show ?thesis by (rule quiet) simp
    next
      case lvl: (Some lvl)
      show ?thesis
      proof (cases "required (userId_of req)")
        case None
        then have "trace ?R = trace w @ []" using lid lvl by (simp add: generateLesson_world)
        then show ?thesis by (rule quiet) simp
      next
        case uid: (Some uid)
        show ?thesis
        proof (cases "db_fault env LessonLanguageFind")
          case True
          then have "trace ?R = trace w @ [Db LessonLanguageFind, Log ''Error generating lesson:'']"
            using lid lvl uid by (simp add: generateLesson_world emit_def)
          then show ?thesis by (rule quiet) simp
        next
          case llf: False
          show ?thesis
          proof (cases "List.find (\<lambda>l. lang_id l = lid) (languages w)")
            case None
            then have "trace ?R = trace w @ [Db LessonLanguageFind]"
              using lid lvl uid llf by (simp add: generateLesson_world emit_def)
            then show ?thesis by (rule quiet) simp
          next
            case lang: (Some lang)
            show ?thesis
            proof (cases "db_fault env LessonCreate")
              case True
              then have "trace ?R = trace w @ (Db LessonLanguageFind # evs
                    @ [Db LessonCreate, Log ''Error generating lesson:''])"
                using lid lvl uid llf lang by (simp add: generateLesson_world c emit_fields)
              then show ?thesis
              proof (rule quiet)
                show "set (Db LessonLanguageFind # evs
                    @ [Db LessonCreate, Log ''Error generating lesson:'']) \<inter> set cascade_events = {}"
                  using q by auto
              qed
            next
              case lc: False
              from generateLesson_persisted [OF lid lvl uid llf lang lc]
              obtain pre rest row where
                "trace ?R = trace w @ pre @ Db LessonCreate # Db InternalLessonFind # rest"
                "set pre \<inter> set cascade_events = {}"
                "lessons ?R = lessons w @ [row]"
                by blast
              then show ?thesis by blast
            qed
          qed
        qed
      qed
    qed
  qed
qed

text \<open>
  Claim C8. In \<open>generateLesson\<close> no event of the quiz step comes before the creation of
  the lesson, and the events after that creation find the lesson row stored. The response
  does not depend on what happens in the quiz step: changing the reply of the model to the
  quiz prompt, the failures of the two Prisma calls of the step and the id of the quiz row
  leaves it as it is. When the step fails, the line is logged and the request still gets
  its 200.
\<close>

theorem quiz_cascade_after_persistence_and_swallowed:
  "fst (generateLesson
          (env\<lparr>gemini := (gemini env)(GenQuiz := g),
               db_fault := (db_fault env)(InternalLessonFind := f1, QuizCreate := f2),
               new_id := (new_id env)(QuizCreate := i)\<rparr>) req w)
     = fst (generateLesson env req w)
   \<and> (\<exists>pre post.
         trace (snd (generateLesson env req w)) = trace w @ pre @ post
       \<and> set pre \<inter> set cascade_events = {}
       \<and> (post = [] \<or>
           (\<exists>rest row. post = Db LessonCreate # rest
              \<and> lessons (snd (generateLesson env req w)) = lessons w @ [row])))
   \<and> ((db_fault env InternalLessonFind \<or> db_fault env QuizCreate)
        \<and> required (languageId req) = Some lid \<and> level req = Some lvl
        \<and> required (userId_of req) = Some uid
        \<and> List.find (\<lambda>l. lang_id l = lid) (languages w) = Some lang
        \<and> \<not> db_fault env LessonLanguageFind \<and> \<not> db_fault env LessonCreate
        \<and> \<not> db_fault env ProgressCreate
      \<longrightarrow> status (fst (generateLesson env req w)) = 200
          \<and> Log ''Auto quiz generation failed:'' \<in> set (trace (snd (generateLesson env req w))))"
proof (intro conjI impI)
  let ?env = "env\<lparr>gemini := (gemini env)(GenQuiz := g),
               db_fault := (db_fault env)(InternalLessonFind := f1, QuizCreate := f2),
               new_id := (new_id env)(QuizCreate := i)\<rparr>"
  have "fst (lesson_content_of ?env w0) = fst (lesson_content_of env w0)" for w0
    by (simp add: lesson_content_of_fst callGeminiJSON_fst split: option.splits)
  then show "fst (generateLesson ?env req w) = fst (generateLesson env req w)"
    by (simp add: generateLesson_response split: option.splits)
next
  show "\<exists>pre post.
         trace (snd (generateLesson env req w)) = trace w @ pre @ post
       \<and> set pre \<inter> set cascade_events = {}
       \<and> (post = [] \<or>
           (\<exists>rest row. post = Db LessonCreate # rest
              \<and> lessons (snd (generateLesson env req w)) = lessons w @ [row]))"
    by (rule generateLesson_order)
next
  assume h: "(db_fault env InternalLessonFind \<or> db_fault env QuizCreate)
        \<and> required (languageId req) = Some lid \<and> level req = Some lvl
        \<and> required (userId_of req) = Some uid
        \<and> List.find (\<lambda>l. lang_id l = lid) (languages w) = Some lang
        \<and> \<not> db_fault env LessonLanguageFind \<and> \<not> db_fault env LessonCreate
        \<and> \<not> db_fault env ProgressCreate"
  then show "status (fst (generateLesson env req w)) = 200"
    by (simp add: generateLesson_response res_json_def)
next
  assume h: "(db_fault env InternalLessonFind \<or> db_fault env QuizCreate)
        \<and> required (languageId req) = Some lid \<and> level req = Some lvl
        \<and> required (userId_of req) = Some uid
        \<and> List.find (\<lambda>l. lang_id l = lid) (languages w) = Some lang
        \<and> \<not> db_fault env LessonLanguageFind \<and> \<not> db_fault env LessonCreate
        \<and> \<not> db_fault env ProgressCreate"
  then have f: "db_fault env InternalLessonFind \<or> db_fault env QuizCreate" by blast
  from h generateLesson_persisted [of req lid lvl uid env w lang]
  obtain row where r: "lesson_id row = new_id env LessonCreate"
    and s: "set (trace (auto_quiz env (new_id env LessonCreate)
              (emit (Db LessonCreate)
                 (snd (lesson_content_of env (emit (Db LessonLanguageFind) w))
                    \<lparr>lessons := lessons w @ [row]\<rparr>))))
        \<subseteq> set (trace (snd (generateLesson env req w)))"
    by blast
  have "List.find (\<lambda>l. lesson_id l = new_id env LessonCreate)
     (lessons (emit (Db LessonCreate)
                 (snd (lesson_content_of env (emit (Db LessonLanguageFind) w))
                    \<lparr>lessons := lessons w @ [row]\<rparr>))) \<noteq> None"
    using r by (auto simp: emit_fields find_None_iff)
  from auto_quiz_logged [OF f this] s
  show "Log ''Auto quiz generation failed:'' \<in> set (trace (snd (generateLesson env req w)))"
    by blast
qed

theorem quiz_cascade_after_persistence_and_swallowed_witness:
  "db_fault quiz_fault_env QuizCreate
   \<and> \<not> db_fault quiz_fault_env LessonLanguageFind
   \<and> \<not> db_fault quiz_fault_env LessonCreate
   \<and> \<not> db_fault quiz_fault_env ProgressCreate
   \<and> status (fst (generateLesson quiz_fault_env example_request example_world)) = 200
   \<and> Log ''Auto quiz generation failed:''
       \<in> set (trace (snd (generateLesson quiz_fault_env example_request example_world)))
   \<and> fst (generateLesson quiz_fault_env example_request example_world)
       = fst (generateLesson example_env example_request example_world)"
proof -
  have f: "db_fault quiz_fault_env QuizCreate" "\<not> db_fault quiz_fault_env LessonLanguageFind"
    "\<not> db_fault quiz_fault_env LessonCreate" "\<not> db_fault quiz_fault_env ProgressCreate"
    by (simp_all add: quiz_fault_env_def example_env_def)
  have r: "required (languageId example_request) = Some ''es''" "level example_request = Some BEGINNER"
    "required (userId_of example_request) = Some ''u1''"
    "List.find (\<lambda>l. lang_id l = ''es'') (languages example_world) = Some example_language"
    by (simp_all add: required_def userId_of_def example_request_def example_user_def
        example_world_def example_language_def)
  have e: "example_env\<lparr>gemini := (gemini example_env)(GenQuiz := gemini example_env GenQuiz),
               db_fault := (db_fault example_env)
                 (InternalLessonFind := db_fault example_env InternalLessonFind, QuizCreate := True),
               new_id := (new_id example_env)(QuizCreate := new_id example_env QuizCreate)\<rparr>
           = quiz_fault_env"
    by (simp add: quiz_fault_env_def)
  note t = quiz_cascade_after_persistence_and_swallowed
  from t [where env = quiz_fault_env and req = example_request and w = example_world
      and lid = "''es''" and lvl = BEGINNER and uid = "''u1''" and lang = example_language] f r
  have c: "status (fst (generateLesson quiz_fault_env example_request example_world)) = 200
     \<and> Log ''Auto quiz generation failed:''
         \<in> set (trace (snd (generateLesson quiz_fault_env example_request example_world)))"
    by blast
  from t [where env = example_env and g = "gemini example_env GenQuiz"
      and ?f1.0 = "db_fault example_env InternalLessonFind" and ?f2.0 = True
      and i = "new_id example_env QuizCreate" and req = example_request and w = example_world]
  have a: "fst (generateLesson quiz_fault_env example_request example_world)
       = fst (generateLesson example_env example_request example_world)"
    unfolding e by blast
  from f c a show ?thesis by blast
qed

lemma wire_fallback_lesson: "wire fallback_lesson = fallback_lesson"
  by (simp add: fallback_lesson_def)

lemma lesson_response_content:
  "at_path (body (res_json 200
      (JObj [(''success'', JBool True), (''lesson'', lesson_json row content),
             (''progress'', p)]))) [Key ''lesson'', Key ''content''] = Some (wire content)"
  by (simp add: res_json_def lesson_json_def)

text \<open>
  Claim C2, as stated, fails. The key is set and every call of the model times out: the
  lesson request is answered 200 with the fixed content, a lesson row is stored and the
  quiz step runs.
\<close>

theorem lesson_invocation_failure_counterexample:
  "api_key example_env \<and> gemini example_env GenLesson = None
   \<and> status (fst (generateLesson example_env example_request example_world)) = 200
   \<and> at_path (body (fst (generateLesson example_env example_request example_world)))
        [Key ''lesson'', Key ''content''] = Some fallback_lesson
   \<and> map lesson_id (lessons (snd (generateLesson example_env example_request example_world)))
       = [''lesson-0'', ''lesson-1'']
   \<and> Db InternalLessonFind
       \<in> set (trace (snd (generateLesson example_env example_request example_world)))"
  by (simp add: generateLesson_def catch_500_def required_def userId_of_def find_language_def
      emit_def lesson_content_of_def callGeminiJSON_def create_lesson_def auto_quiz_def
      generateQuizInternal_def find_lesson_def create_quiz_def create_progress_def res_json_def
      lesson_json_def progress_json_def failure_def fallback_lesson_def
      example_env_def example_request_def example_world_def example_user_def
      example_language_def example_lesson_def)

text \<open>
  Claim C2, amended. When the model call of a lesson request fails (no key, or the call
  throws), the failure is caught with the extraction failures: for a request that passes
  the checks and whose Prisma calls do not fail, the answer is 200 with the fixed content,
  the lesson row is stored with that content, and the quiz step starts after it.
\<close>

theorem lesson_invocation_failure_falls_back:
  assumes "\<not> api_key env \<or> gemini env GenLesson = None"
    and "required (languageId req) = Some lid" and "level req = Some lvl"
    and "required (userId_of req) = Some uid"
    and "\<not> db_fault env LessonLanguageFind"
    and "List.find (\<lambda>l. lang_id l = lid) (languages w) = Some lang"
    and "\<not> db_fault env LessonCreate" and "\<not> db_fault env ProgressCreate"
  shows "status (fst (generateLesson env req w)) = 200
     \<and> at_path (body (fst (generateLesson env req w))) [Key ''lesson'', Key ''content'']
         = Some fallback_lesson
     \<and> (\<exists>pre rest row.
           trace (snd (generateLesson env req w))
             = trace w @ pre @ Db LessonCreate # Db InternalLessonFind # rest
         \<and> lessons (snd (generateLesson env req w)) = lessons w @ [row]
         \<and> lesson_content row = fallback_lesson)"
proof -
  have c: "fst (lesson_content_of env w0) = fallback_lesson" for w0
    using assms(1) by (auto simp: lesson_content_of_fst callGeminiJSON_fst)
  have r: "fst (generateLesson env req w) =
      res_json 200
        (JObj [(''success'', JBool True),
               (''lesson'',
                lesson_json
                  \<lparr>lesson_id = new_id env LessonCreate,
                   lesson_title =
                     (case required (topic req) of
                        Some t \<Rightarrow> t
                      | None \<Rightarrow> level_name lvl @ '' '' @ lang_name lang @ '' Lesson''),
                   lesson_description = ''AI-generated lesson'',
                   lesson_languageId = lid,
                   lesson_level = lvl,
                   lesson_content = fallback_lesson\<rparr>
                  fallback_lesson),
               (''progress'',
                progress_json
                  \<lparr>progress_id = new_id env ProgressCreate,
                   progress_userId = uid,
                   progress_lessonId = new_id env LessonCreate,
                   progress_score = 0,
                   progress_completed = False\<rparr>)])"
    using assms(2-8) by (simp add: generateLesson_response c wire_fallback_lesson)
  have s: "status (fst (generateLesson env req w)) = 200"
    by (simp add: r res_json_def)
  have b: "at_path (body (fst (generateLesson env req w))) [Key ''lesson'', Key ''content'']
         = Some fallback_lesson"
    by (simp only: r lesson_response_content wire_fallback_lesson)
  from generateLesson_persisted [OF assms(2,3,4,5,6,7)]
  have p: "\<exists>pre rest row.
           trace (snd (generateLesson env req w))
             = trace w @ pre @ Db LessonCreate # Db InternalLessonFind # rest
         \<and> lessons (snd (generateLesson env req w)) = lessons w @ [row]
         \<and> lesson_content row = fallback_lesson"
    by (simp add: c wire_fallback_lesson) blast
  from s b p show ?thesis by blast
qed

theorem lesson_invocation_failure_falls_back_witness:
  "\<not> api_key (example_env\<lparr>api_key := False\<rparr>)
   \<and> status (fst (generateLesson (example_env\<lparr>api_key := False\<rparr>) example_request example_world))
       = 200
   \<and> at_path (body (fst (generateLesson (example_env\<lparr>api_key := False\<rparr>) example_request
                           example_world)))
        [Key ''lesson'', Key ''content''] = Some fallback_lesson"
proof -
  let ?env = "example_env\<lparr>api_key := False\<rparr>"
  have h1: "\<not> api_key ?env \<or> gemini ?env GenLesson = None" by simp
  have f: "\<not> db_fault ?env LessonLanguageFind" "\<not> db_fault ?env LessonCreate"
    "\<not> db_fault ?env ProgressCreate"
    by (simp_all add: example_env_def)
  have r: "required (languageId example_request) = Some ''es''" "level example_request = Some BEGINNER"
    "required (userId_of example_request) = Some ''u1''"
    "List.find (\<lambda>l. lang_id l = ''es'') (languages example_world) = Some example_language"
    by (simp_all add: required_def userId_of_def example_request_def example_user_def
        example_world_def example_language_def)
  from lesson_invocation_failure_falls_back [OF h1 r(1,2,3) f(1) r(4) f(2,3)]
  show ?thesis by simp
qed

text \<open>
  Claim C5, as stated, fails. The model answers with the fenced text of
  \<open>{"grammar":"ok"}\<close>: the content that is sent and stored is that object alone, with no
  \<open>vocabulary\<close>, \<open>examples\<close>, \<open>exercises\<close> or \<open>culturalNotes\<close>.
\<close>

theorem lesson_validation_counterexample:
  "safeJsonParse (json_parse grammar_env) grammar_text = Inr (JObj [(''grammar'', JStr ''ok'')])
   \<and> status (fst (generateLesson grammar_env example_request example_world)) = 200
   \<and> at_path (body (fst (generateLesson grammar_env example_request example_world)))
        [Key ''lesson'', Key ''content''] = Some (JObj [(''grammar'', JStr ''ok'')])
   \<and> at_path (body (fst (generateLesson grammar_env example_request example_world)))
        [Key ''lesson'', Key ''content'', Key ''vocabulary''] = None
   \<and> map lesson_content
         (lessons (snd (generateLesson grammar_env example_request example_world)))
       = [JNull, JObj [(''grammar'', JStr ''ok'')]]"
  by (simp add: generateLesson_def catch_500_def required_def userId_of_def find_language_def
      emit_def lesson_content_of_def callGeminiJSON_def create_lesson_def auto_quiz_def
      generateQuizInternal_def find_lesson_def create_quiz_def create_progress_def res_json_def
      lesson_json_def progress_json_def failure_def
      safeJsonParse_def or_else_def grammar_text_def cleaned_of_def trim_def fence_def
      strip_fence_json_def strip_fence_def strip_end_fence_def starts_with_ci_def
      ends_with_def lower_char_def is_ws_def
      grammar_env_def example_env_def example_request_def example_world_def example_user_def
      example_language_def example_lesson_def)

text \<open>
  Claim C5, amended. No validation is applied to a lesson document: for a request that
  passes the checks and whose Prisma calls do not fail, the content that is sent and the
  content of the stored lesson row are the extracted document as JSON serialisation writes
  it. All five keys are certain only in the fixed content of a failed generation.
\<close>

theorem lesson_content_stored_as_extracted:
  assumes "api_key env" and "gemini env GenLesson = Some raw"
    and "safeJsonParse (json_parse env) raw = Inr doc"
    and "required (languageId req) = Some lid" and "level req = Some lvl"
    and "required (userId_of req) = Some uid"
    and "\<not> db_fault env LessonLanguageFind"
    and "List.find (\<lambda>l. lang_id l = lid) (languages w) = Some lang"
    and "\<not> db_fault env LessonCreate" and "\<not> db_fault env ProgressCreate"
  shows "status (fst (generateLesson env req w)) = 200
     \<and> at_path (body (fst (generateLesson env req w))) [Key ''lesson'', Key ''content'']
         = Some (wire doc)
     \<and> (\<exists>row. lessons (snd (generateLesson env req w)) = lessons w @ [row]
            \<and> lesson_content row = wire doc)
     \<and> (\<forall>k \<in> set [''vocabulary'', ''grammar'', ''examples'', ''exercises'', ''culturalNotes''].
            at_path fallback_lesson [Key k] \<noteq> None)"
proof -
  have c: "fst (lesson_content_of env w0) = doc" for w0
    using assms(1,2,3) by (simp add: lesson_content_of_fst callGeminiJSON_fst)
  have r: "fst (generateLesson env req w) =
      res_json 200
        (JObj [(''success'', JBool True),
               (''lesson'',
                lesson_json
                  \<lparr>lesson_id = new_id env LessonCreate,
                   lesson_title =
                     (case required (topic req) of
                        Some t \<Rightarrow> t
                      | None \<Rightarrow> level_name lvl @ '' '' @ lang_name lang @ '' Lesson''),
                   lesson_description = ''AI-generated lesson'',
                   lesson_languageId = lid,
                   lesson_level = lvl,
                   lesson_content = wire doc\<rparr>
                  doc),
               (''progress'',
                progress_json
                  \<lparr>progress_id = new_id env ProgressCreate,
                   progress_userId = uid,
                   progress_lessonId = new_id env LessonCreate,
                   progress_score = 0,
                   progress_completed = False\<rparr>)])"
    using assms(4-10) by (simp add: generateLesson_response c)
  have s: "status (fst (generateLesson env req w)) = 200"
    by (simp add: r res_json_def)
  have b: "at_path (body (fst (generateLesson env req w))) [Key ''lesson'', Key ''content'']
         = Some (wire doc)"
    by (simp only: r lesson_response_content)
  from generateLesson_persisted [OF assms(4,5,6,7,8,9)]
  have p: "\<exists>row. lessons (snd (generateLesson env req w)) = lessons w @ [row]
            \<and> lesson_content row = wire doc"
    by (simp add: c) blast
  have k: "\<forall>k \<in> set [''vocabulary'', ''grammar'', ''examples'', ''exercises'', ''culturalNotes''].
            at_path fallback_lesson [Key k] \<noteq> None"
    by (simp add: fallback_lesson_def)
  from s b p k show ?thesis by blast
qed

theorem lesson_content_stored_as_extracted_witness:
  "api_key grammar_env \<and> gemini grammar_env GenLesson = Some grammar_text
   \<and> safeJsonParse (json_parse grammar_env) grammar_text = Inr (JObj [(''grammar'', JStr ''ok'')])
   \<and> status (fst (generateLesson grammar_env example_request example_world)) = 200
   \<and> at_path (body (fst (generateLesson grammar_env example_request example_world)))
        [Key ''lesson'', Key ''content''] = Some (JObj [(''grammar'', JStr ''ok'')])
   \<and> (\<exists>row. lessons (snd (generateLesson grammar_env example_request example_world))
              = lessons example_world @ [row]
            \<and> lesson_content row = JObj [(''grammar'', JStr ''ok'')])"
proof -
  have h: "api_key grammar_env" "gemini grammar_env GenLesson = Some grammar_text"
    by (simp_all add: grammar_env_def example_env_def)
  have x: "safeJsonParse (json_parse grammar_env) grammar_text
      = Inr (JObj [(''grammar'', JStr ''ok'')])"
    by (simp add: safeJsonParse_def or_else_def grammar_text_def cleaned_of_def trim_def
        fence_def strip_fence_json_def strip_fence_def strip_end_fence_def starts_with_ci_def
        ends_with_def lower_char_def is_ws_def grammar_env_def)
  have f: "\<not> db_fault grammar_env LessonLanguageFind" "\<not> db_fault grammar_env LessonCreate"
    "\<not> db_fault grammar_env ProgressCreate"
    by (simp_all add: grammar_env_def example_env_def)
  have r: "required (languageId example_request) = Some ''es''" "level example_request = Some BEGINNER"
    "required (userId_of example_request) = Some ''u1''"
    "List.find (\<lambda>l. lang_id l = ''es'') (languages example_world) = Some example_language"
    by (simp_all add: required_def userId_of_def example_request_def example_user_def
        example_world_def example_language_def)
  from lesson_content_stored_as_extracted [OF h x r(1,2,3) f(1) r(4) f(2,3)] h x
  show ?thesis by simp
qed

section \<open>The outcome of a pronunciation request\<close>

lemma trim_same_text: "trim same_text = same_text"
  by (simp add: trim_def same_text_def is_ws_def)

lemma no_parse_no_document: "safeJsonParse (\<lambda>s. Inl SyntaxError) raw = Inl ExtractionError"
  by (simp add: safeJsonParse_def or_else_def Let_def split: option.splits)

text \<open>
  Claim C6, as stated, fails: an outcome carries no source marker. Extraction fails in the
  first environment and succeeds in the second, and both requests get the same response
  and write the same row.
\<close>

theorem source_marker_counterexample:
  "fst (callGeminiJSON prose_env GenPronunciation example_world) = Inl ExtractionError
   \<and> fst (callGeminiJSON same_env GenPronunciation example_world)
       = Inr (fallback_feedback ''Hola amigo'')
   \<and> fst (getPronunciationFeedback prose_env example_request example_world)
       = fst (getPronunciationFeedback same_env example_request example_world)
   \<and> pron_rows (snd (getPronunciationFeedback prose_env example_request example_world))
       = pron_rows (snd (getPronunciationFeedback same_env example_request example_world))"
  by (simp add: getPronunciationFeedback_def catch_500_def find_language_def res_json_def
      create_pron_def emit_def required_def feedback_of_def callGeminiJSON_def
      bind_err_def validate_feedback_def no_parse_no_document trim_same_text safeJsonParse_def
      or_else_def prose_env_def same_env_def example_env_def example_request_def
      example_world_def example_language_def example_user_def fallback_feedback_def
      split_first_def)

text \<open>
  Claim C6, amended. The response of a pronunciation request is \<open>success\<close> and
  \<open>feedback\<close>, with no source marker, whether the feedback came from the model or is the
  fixed one. When extraction fails for the target text \<open>Hola amigo\<close> (the request passing
  its checks, the Prisma calls not failing), the feedback is the fixed one: accuracy 0.7
  and \<open>Hola\<close> as the sound of the first phoneme.
\<close>

theorem pronunciation_fallback_outcome:
  assumes "api_key env" and "gemini env GenPronunciation = Some raw"
    and "isl (safeJsonParse (json_parse env) raw)"
    and "required (languageId req) = Some lid" and "required (audioData req) = Some audio"
    and "targetText req = Some ''Hola amigo''" and "level req = Some lvl"
    and "req_user req = Some u"
    and "List.find (\<lambda>l. lang_id l = lid) (languages w) = Some lang"
    and "\<not> db_fault env PronLanguageFind" and "\<not> db_fault env PronCreate"
  shows "fst (getPronunciationFeedback env req w) =
           res_json 200 (JObj [(''success'', JBool True),
                               (''feedback'', fallback_feedback ''Hola amigo'')])
     \<and> at_path (body (fst (getPronunciationFeedback env req w)))
          [Key ''feedback'', Key ''accuracy''] = Some (JNum (Num (7 / 10)))
     \<and> at_path (body (fst (getPronunciationFeedback env req w)))
          [Key ''feedback'', Key ''phonemes'', Idx 0, Key ''sound''] = Some (JStr ''Hola'')
     \<and> at_path (body (fst (getPronunciationFeedback env req w))) [Key ''source''] = None
     \<and> at_path (body (fst (getPronunciationFeedback env req w)))
          [Key ''feedback'', Key ''source''] = None"
proof -
  have f: "feedback_of env ''Hola amigo'' w0 =
      (fallback_feedback ''Hola amigo'',
       emit (Log ''Pronunciation JSON generation failed:'') (emit (Model GenPronunciation) w0))"
    for w0
    using assms(1,2,3)
    by (auto simp: feedback_of_def callGeminiJSON_def bind_err_def isl_def)
  have r: "fst (getPronunciationFeedback env req w) =
           res_json 200 (JObj [(''success'', JBool True),
                               (''feedback'', fallback_feedback ''Hola amigo'')])"
    using assms(4-11)
    by (simp add: getPronunciationFeedback_def catch_500_def find_language_def f
        fallback_feedback_accuracy create_pron_def required_def split: if_splits)
  show ?thesis
    by (simp add: r) (simp add: res_json_def fallback_feedback_def split_first_def)
qed

theorem pronunciation_fallback_outcome_witness:
  "api_key prose_env
   \<and> gemini prose_env GenPronunciation = Some ''Sorry, I cannot help with that.''
   \<and> isl (safeJsonParse (json_parse prose_env) ''Sorry, I cannot help with that.'')
   \<and> targetText example_request = Some ''Hola amigo''
   \<and> status (fst (getPronunciationFeedback prose_env example_request example_world)) = 200
   \<and> at_path (body (fst (getPronunciationFeedback prose_env example_request example_world)))
        [Key ''feedback'', Key ''accuracy''] = Some (JNum (Num (7 / 10)))
   \<and> at_path (body (fst (getPronunciationFeedback prose_env example_request example_world)))
        [Key ''feedback'', Key ''phonemes'', Idx 0, Key ''sound''] = Some (JStr ''Hola'')"
proof -
  have h: "api_key prose_env"
    "gemini prose_env GenPronunciation = Some ''Sorry, I cannot help with that.''"
    "isl (safeJsonParse (json_parse prose_env) ''Sorry, I cannot help with that.'')"
    by (simp_all add: prose_env_def example_env_def no_parse_no_document)
  have r: "required (languageId example_request) = Some ''es''"
    "required (audioData example_request) = Some ''UklGRg==''"
    "targetText example_request = Some ''Hola amigo''"
    "level example_request = Some BEGINNER"
    "req_user example_request = Some example_user"
    "List.find (\<lambda>l. lang_id l = ''es'') (languages example_world) = Some example_language"
    by (simp_all add: required_def example_request_def example_world_def example_language_def)
  have f: "\<not> db_fault prose_env PronLanguageFind" "\<not> db_fault prose_env PronCreate"
    by (simp_all add: prose_env_def example_env_def)
  note t = pronunciation_fallback_outcome [OF h r f]
  from t have s: "status (fst (getPronunciationFeedback prose_env example_request example_world))
      = 200"
    by (simp add: res_json_def)
  from t s h r(3) show ?thesis by blast
qed

section \<open>Properties of quiz generation\<close>

lemma wire_idem: "wire (wire v) = wire v"
  by (induction v) (auto split: jsnum.splits)

lemma is_array_wire: "is_array (Some (wire v)) = is_array (Some v)"
  by (cases v) (auto split: jsnum.splits)

text \<open>
  Claim C3, as stated, fails. The model answers with a question that has one option and
  the correct answer 9: the question is stored and sent as it is.
\<close>

theorem quiz_validation_counterexample:
  "safeJsonParse (json_parse bad_quiz_env) bad_quiz_text = Inr (JArr [bad_question] [])
   \<and> \<not> valid_question bad_question
   \<and> status (fst (generateQuiz bad_quiz_env example_request example_world)) = 200
   \<and> at_path (body (fst (generateQuiz bad_quiz_env example_request example_world)))
        [Key ''quiz'', Key ''questions''] = Some (JArr [bad_question] [])
   \<and> map quiz_questions (quizzes (snd (generateQuiz bad_quiz_env example_request example_world)))
       = [JArr [bad_question] []]"
  by (simp add: generateQuiz_def catch_500_def required_def find_lesson_def quizzes_of_def
      emit_def generateQuizInternal_def callGeminiJSON_def create_quiz_def res_json_def
      quiz_json_def questions_or_empty_def valid_question_def
      safeJsonParse_def or_else_def trim_def is_ws_def bad_quiz_text_def bad_question_def
      bad_quiz_env_def example_env_def example_request_def example_world_def
      example_lesson_def)

text \<open>
  Claim C3, amended. Quiz generation applies no validation to the questions. For a quiz
  request on a stored lesson without a quiz (the Prisma calls not failing), the stored quiz
  holds the extracted document as JSON serialisation writes it, and the questions sent
  are that document when it is a sequence: every question of it is kept. The questions are the empty sequence when
  the document is not a sequence, or the model call or the extraction failed.
\<close>

theorem quiz_questions_as_extracted:
  assumes "required (lessonId req) = Some lid"
    and "\<not> db_fault env QuizLessonFind"
    and "List.find (\<lambda>l. lesson_id l = lid) (lessons w) = Some l"
    and "quizzes_of w lid = []"
    and "\<not> db_fault env InternalLessonFind" and "\<not> db_fault env QuizCreate"
  shows "status (fst (generateQuiz env req w)) = 200
     \<and> (fst (callGeminiJSON env GenQuiz w) = Inr (JArr qs ps) \<longrightarrow>
          at_path (body (fst (generateQuiz env req w))) [Key ''quiz'', Key ''questions'']
            = Some (JArr (map wire qs) [])
          \<and> quizzes (snd (generateQuiz env req w)) =
              quizzes w @ [\<lparr>quiz_id = new_id env QuizCreate, quiz_lessonId = lid,
                            quiz_questions = JArr (map wire qs) []\<rparr>])
     \<and> (fst (callGeminiJSON env GenQuiz w) = Inr doc \<and> \<not> is_array (Some doc) \<longrightarrow>
          at_path (body (fst (generateQuiz env req w))) [Key ''quiz'', Key ''questions'']
            = Some (JArr [] [])
          \<and> quizzes (snd (generateQuiz env req w)) =
              quizzes w @ [\<lparr>quiz_id = new_id env QuizCreate, quiz_lessonId = lid,
                            quiz_questions = wire doc\<rparr>])
     \<and> (isl (fst (callGeminiJSON env GenQuiz w)) \<longrightarrow>
          at_path (body (fst (generateQuiz env req w))) [Key ''quiz'', Key ''questions'']
            = Some (JArr [] [])
          \<and> quizzes (snd (generateQuiz env req w)) =
              quizzes w @ [\<lparr>quiz_id = new_id env QuizCreate, quiz_lessonId = lid,
                            quiz_questions = JArr [] []\<rparr>])"
proof -
  define D0 where "D0 = fst (callGeminiJSON env GenQuiz w)"
  have pair: "callGeminiJSON env GenQuiz w0 =
      (D0, if api_key env then emit (Model GenQuiz) w0 else w0)" for w0
    by (simp add: D0_def callGeminiJSON_def)
  let ?D = "case D0 of Inr doc \<Rightarrow> doc | Inl e \<Rightarrow> JArr [] []"
  let ?row = "\<lparr>quiz_id = new_id env QuizCreate, quiz_lessonId = lid, quiz_questions = wire ?D\<rparr>"
  have l: "lesson_id l = lid" using assms(3) by (rule find_Some_lesson_id)
  have q: "quizzes_of (emit (Db QuizLessonFind) w) lid = []"
    using assms(4) by (simp add: quizzes_of_def emit_def)
  have i: "\<exists>w2. generateQuizInternal env lid (emit (Db QuizLessonFind) w) = (Inr ?row, w2)
      \<and> quizzes w2 = quizzes w @ [?row]"
    using assms(3,5,6)
    by (cases D0)
      (auto simp: generateQuizInternal_def find_lesson_def emit_fields create_quiz_def pair)
  then obtain w2 where g: "generateQuizInternal env lid (emit (Db QuizLessonFind) w) = (Inr ?row, w2)"
    and w2: "quizzes w2 = quizzes w @ [?row]" by blast
  have r: "generateQuiz env req w =
      (res_json 200 (JObj [(''success'', JBool True), (''quiz'', quiz_json ?row)]), w2)"
    using assms(1,2,3) l q g
    by (simp add: generateQuiz_def catch_500_def find_lesson_def)
  have b: "at_path (body (fst (generateQuiz env req w))) [Key ''quiz'', Key ''questions'']
      = Some (if is_array (Some ?D) then wire ?D else JArr [] [])"
    by (simp add: r res_json_def quiz_json_def questions_or_empty_def is_array_wire wire_idem)
  have s: "status (fst (generateQuiz env req w)) = 200"
    by (simp add: r res_json_def)
  have z: "quizzes (snd (generateQuiz env req w)) = quizzes w @ [?row]"
    by (simp add: r w2)
  show ?thesis
    unfolding D0_def [symmetric] using s b z by (auto simp: isl_def)
qed

theorem quiz_questions_as_extracted_witness:
  "fst (callGeminiJSON bad_quiz_env GenQuiz example_world) = Inr (JArr [bad_question] [])
   \<and> at_path (body (fst (generateQuiz bad_quiz_env example_request example_world)))
        [Key ''quiz'', Key ''questions''] = Some (JArr [bad_question] [])
   \<and> fst (callGeminiJSON (bad_quiz_env\<lparr>json_parse := (\<lambda>s. Inr (JStr ''none''))\<rparr>) GenQuiz
            example_world) = Inr (JStr ''none'')
   \<and> \<not> is_array (Some (JStr ''none''))
   \<and> at_path (body (fst (generateQuiz (bad_quiz_env\<lparr>json_parse := (\<lambda>s. Inr (JStr ''none''))\<rparr>)
                           example_request example_world)))
        [Key ''quiz'', Key ''questions''] = Some (JArr [] [])
   \<and> isl (fst (callGeminiJSON example_env GenQuiz example_world))
   \<and> at_path (body (fst (generateQuiz example_env example_request example_world)))
        [Key ''quiz'', Key ''questions''] = Some (JArr [] [])"
proof -
  let ?env2 = "bad_quiz_env\<lparr>json_parse := (\<lambda>s. Inr (JStr ''none''))\<rparr>"
  have r: "required (lessonId example_request) = Some ''lesson-0''"
    "List.find (\<lambda>l. lesson_id l = ''lesson-0'') (lessons example_world) = Some example_lesson"
    "quizzes_of example_world ''lesson-0'' = []"
    by (simp_all add: required_def example_request_def example_world_def example_lesson_def
        quizzes_of_def)
  have f1: "\<not> db_fault bad_quiz_env QuizLessonFind" "\<not> db_fault bad_quiz_env InternalLessonFind"
    "\<not> db_fault bad_quiz_env QuizCreate"
    and f2: "\<not> db_fault ?env2 QuizLessonFind" "\<not> db_fault ?env2 InternalLessonFind"
    "\<not> db_fault ?env2 QuizCreate"
    and f3: "\<not> db_fault example_env QuizLessonFind" "\<not> db_fault example_env InternalLessonFind"
    "\<not> db_fault example_env QuizCreate"
    by (simp_all add: bad_quiz_env_def example_env_def)
  have c1: "fst (callGeminiJSON bad_quiz_env GenQuiz example_world) = Inr (JArr [bad_question] [])"
    by (simp add: callGeminiJSON_def bad_quiz_env_def example_env_def safeJsonParse_def
        or_else_def trim_def is_ws_def bad_quiz_text_def)
  have c2: "fst (callGeminiJSON ?env2 GenQuiz example_world) = Inr (JStr ''none'')"
    by (simp add: callGeminiJSON_def bad_quiz_env_def example_env_def safeJsonParse_def
        or_else_def)
  have c3: "isl (fst (callGeminiJSON example_env GenQuiz example_world))"
    by (simp add: callGeminiJSON_def example_env_def)
  have n: "\<not> is_array (Some (JStr ''none''))" by simp
  have w: "map wire [bad_question] = [bad_question]" by (simp add: bad_question_def)
  from quiz_questions_as_extracted [OF r(1) f1(1) r(2,3) f1(2,3), of "[bad_question]" "[]"] c1 w
  have a1: "at_path (body (fst (generateQuiz bad_quiz_env example_request example_world)))
        [Key ''quiz'', Key ''questions''] = Some (JArr [bad_question] [])"
    by simp
  from quiz_questions_as_extracted [OF r(1) f2(1) r(2,3) f2(2,3), of _ _ "JStr ''none''"] c2 n
  have a2: "at_path (body (fst (generateQuiz ?env2 example_request example_world)))
        [Key ''quiz'', Key ''questions''] = Some (JArr [] [])"
    by blast
  from quiz_questions_as_extracted [OF r(1) f3(1) r(2,3) f3(2,3)] c3
  have a3: "at_path (body (fst (generateQuiz example_env example_request example_world)))
        [Key ''quiz'', Key ''questions''] = Some (JArr [] [])"
    by blast
  from c1 a1 c2 n a2 c3 a3 show ?thesis by blast
qed

section \<open>Properties of the routes\<close>

lemma find_Some_user_id:
  "List.find (\<lambda>u. user_id u = uid) us = Some u \<Longrightarrow> user_id u = uid"
  by (auto simp: find_Some_iff)

lemma authenticated:
  assumes "token_of req = Some t" and "jwt_verify env t = Inr uid"
    and "\<not> db_fault env AuthUserFind"
    and "List.find (\<lambda>u. user_id u = uid) (users w) = Some u"
  shows "handle r env req w =
           controller r env (req\<lparr>req_user := Some u\<rparr>) (emit (Db AuthUserFind) w)"
  using assms by (simp add: handle_def authenticateToken_def find_user_def)

lemma controller_400:
  assumes "missing_fields r req"
  shows "status (fst (controller r env req w)) = 400"
  using assms
  by (cases r)
    (auto simp: generateLesson_def generateQuiz_def generateConversationPrompt_def
      getConversationResponse_def getPronunciationFeedback_def catch_500_def res_json_def
      split: option.splits)

lemma controller_500:
  assumes "\<not> missing_fields r req" and "required (userId_of req) \<noteq> None"
    and "db_fault env (lookup_site r)"
  shows "status (fst (controller r env req w)) = 500"
  using assms
  by (cases r)
    (auto simp: generateLesson_def generateQuiz_def generateConversationPrompt_def
      getConversationResponse_def getPronunciationFeedback_def getLessonContent_def
      catch_500_def res_json_def find_language_def find_lesson_def
      split: option.splits)

lemma controller_404:
  assumes "\<not> missing_fields r req" and "required (userId_of req) \<noteq> None"
    and "\<not> db_fault env (lookup_site r)" and "entity_unknown r req w"
  shows "status (fst (controller r env req w)) = 404"
  using assms
  by (cases r)
    (auto simp: generateLesson_def generateQuiz_def generateConversationPrompt_def
      getConversationResponse_def getPronunciationFeedback_def getLessonContent_def
      catch_500_def res_json_def find_language_def find_lesson_def language_unknown_def
      emit_fields required_def
      split: option.splits if_splits)

lemma missing_fields_user [simp]:
  "missing_fields r (req\<lparr>req_user := x\<rparr>) = missing_fields r req"
  by (cases r) simp_all

lemma entity_unknown_frame [simp]:
  "entity_unknown r (req\<lparr>req_user := x\<rparr>) (emit e w) = entity_unknown r req w"
  by (cases r) (simp_all add: language_unknown_def emit_fields split: option.splits)

lemma later_sites_frame [simp]:
  "later_sites r (req\<lparr>req_user := x\<rparr>) (emit e w) = later_sites r req w"
  by (cases r) (simp_all add: quizzes_of_def emit_fields split: option.splits)

lemma generateQuiz_status:
  assumes "required (lessonId req) = Some lid" and "\<not> db_fault env QuizLessonFind"
    and "List.find (\<lambda>l. lesson_id l = lid) (lessons w) = Some l"
  shows "status (fst (generateQuiz env req w)) =
      (if quizzes_of w lid = [] \<and> (db_fault env InternalLessonFind \<or> db_fault env QuizCreate)
       then 500 else 200)"
proof -
  have l: "lesson_id l = lid" using assms(3) by (rule find_Some_lesson_id)
  have q: "quizzes_of (emit (Db QuizLessonFind) w) lid = quizzes_of w lid"
    by (simp add: quizzes_of_def emit_fields)
  have f: "List.find (\<lambda>l. lesson_id l = lid) (lessons (emit (Db QuizLessonFind) w)) = Some l"
    using assms(3) by (simp add: emit_fields)
  have i: "isl (fst (generateQuizInternal env lid (emit (Db QuizLessonFind) w))) =
      (db_fault env InternalLessonFind \<or> db_fault env QuizCreate)"
    using f
    by (auto simp: generateQuizInternal_def find_lesson_def create_quiz_def emit_fields
        split: prod.splits sum.splits)
  show ?thesis
  proof (cases "quizzes_of w lid")
    case Nil
    then show ?thesis using assms(1,2,3) l q i
      by (cases "generateQuizInternal env lid (emit (Db QuizLessonFind) w)")
        (auto simp: generateQuiz_def catch_500_def find_lesson_def res_json_def
          split: sum.splits)
  next
    case (Cons a as)
    then show ?thesis using assms(1,2,3) l q
      by (simp add: generateQuiz_def catch_500_def find_lesson_def res_json_def)
  qed
qed

lemma generateQuiz_known:
  assumes "\<not> missing_fields GenerateQuiz req" and "\<not> entity_unknown GenerateQuiz req w"
  shows "\<exists>lid l. lessonId req = Some lid \<and> required (lessonId req) = Some lid
      \<and> List.find (\<lambda>l. lesson_id l = lid) (lessons w) = Some l"
  using assms by (auto simp: required_def split: option.splits if_splits)

lemma controller_later_500:
  assumes "\<not> missing_fields r req" and "required (userId_of req) \<noteq> None"
    and "\<not> db_fault env (lookup_site r)" and "\<not> entity_unknown r req w"
    and "\<exists>s \<in> set (later_sites r req w). db_fault env s"
  shows "status (fst (controller r env req w)) = 500"
proof (cases r)
  case GenerateLesson
  then show ?thesis using assms
    by (auto simp: generateLesson_response language_unknown_def res_json_def required_def
        split: option.splits if_splits)
next
  case GenerateQuiz
  with assms(1,4) generateQuiz_known [of req w] obtain lid l where
    k: "lessonId req = Some lid" "required (lessonId req) = Some lid"
      "List.find (\<lambda>l. lesson_id l = lid) (lessons w) = Some l"
    by blast
  from generateQuiz_status [OF k(2) _ k(3), of env] assms(3,5) GenerateQuiz k(1)
  show ?thesis by (auto split: if_splits)
next
  case LessonContent
  then show ?thesis using assms by simp
next
  case ConversationPrompt
  then show ?thesis using assms
    by (auto simp: generateConversationPrompt_def catch_500_def res_json_def
        find_language_def create_conversation_def language_unknown_def required_def
        split: option.splits if_splits prod.splits sum.splits)
next
  case ConversationResponse
  then show ?thesis using assms by simp
next
  case PronunciationFeedback
  then show ?thesis using assms
    by (auto simp: getPronunciationFeedback_def catch_500_def res_json_def
        find_language_def create_pron_def language_unknown_def required_def userId_of_def
        split: option.splits if_splits prod.splits sum.splits)
qed

lemma controller_reply_500:
  assumes "\<not> missing_fields r req" and "required (userId_of req) \<noteq> None"
    and "\<not> db_fault env (lookup_site r)" and "\<not> entity_unknown r req w"
    and "reply_fails r env"
  shows "status (fst (controller r env req w)) = 500"
  using assms
  by (auto simp: reply_fails_def getConversationResponse_def catch_500_def res_json_def
      find_language_def callGeminiText_def language_unknown_def required_def
      split: option.splits if_splits)

lemma feedback_of_readable:
  assumes "feedback_of env t w = (fb, w1)" and "get_prop fb ''accuracy'' = Inl e"
  shows False
  using feedback_of_accuracy [of env t w] assms by simp

lemma controller_200:
  assumes "\<not> missing_fields r req" and "required (userId_of req) \<noteq> None"
    and "\<not> db_fault env (lookup_site r)" and "\<not> entity_unknown r req w"
    and "\<forall>s \<in> set (later_sites r req w). \<not> db_fault env s"
    and "\<not> reply_fails r env"
  shows "status (fst (controller r env req w)) = 200"
proof (cases r)
  case GenerateLesson
  then show ?thesis using assms
    by (auto simp: generateLesson_response language_unknown_def res_json_def required_def
        split: option.splits if_splits)
next
  case GenerateQuiz
  with assms(1,4) generateQuiz_known [of req w] obtain lid l where
    k: "lessonId req = Some lid" "required (lessonId req) = Some lid"
      "List.find (\<lambda>l. lesson_id l = lid) (lessons w) = Some l"
    by blast
  from generateQuiz_status [OF k(2) _ k(3), of env] assms(3,5) GenerateQuiz k(1)
  show ?thesis by (auto split: if_splits)
next
  case LessonContent
  then show ?thesis using assms
    by (auto simp: getLessonContent_def catch_500_def res_json_def find_lesson_def
        split: option.splits)
next
  case ConversationPrompt
  then show ?thesis using assms
    by (auto simp: generateConversationPrompt_def catch_500_def res_json_def
        find_language_def create_conversation_def language_unknown_def required_def
        split: option.splits if_splits prod.splits sum.splits)
next
  case ConversationResponse
  then show ?thesis using assms
    by (auto simp: reply_fails_def getConversationResponse_def catch_500_def res_json_def
        find_language_def callGeminiText_def language_unknown_def required_def
        split: option.splits if_splits)
next
  case PronunciationFeedback
  then show ?thesis using assms
    by (auto simp: getPronunciationFeedback_def catch_500_def res_json_def
        find_language_def create_pron_def language_unknown_def required_def userId_of_def
        split: option.splits if_splits prod.splits sum.splits
        dest: feedback_of_readable)
qed

text \<open>
  Without \<open>req.user\<close> the controller of the pronunciation endpoint does not answer 401:
  it has no check of its own and throws at \<open>user.id\<close>. Behind \<open>authenticateToken\<close>
  the controller does not run without a user.
\<close>

lemma getPronunciationFeedback_without_user:
  assumes "req_user req = None" and "\<not> missing_fields PronunciationFeedback req"
    and "\<not> db_fault env PronLanguageFind"
    and "\<not> entity_unknown PronunciationFeedback req w"
  shows "status (fst (getPronunciationFeedback env req w)) = 500"
  using assms
  by (auto simp: getPronunciationFeedback_def catch_500_def res_json_def find_language_def
      language_unknown_def required_def split: option.splits prod.splits if_splits)

text \<open>
  Claim C9, as stated, fails, in two places. The token of the pronunciation request has
  expired: no user is attached to the request, and the answer is 403. The storing of the
  conversation exchange fails unexpectedly: the failure is logged and the answer is 200.
\<close>

theorem unauthenticated_status_counterexample:
  "req_user expired_request = None
   \<and> token_of expired_request = Some ''expired''
   \<and> jwt_verify example_env ''expired'' = Inl JsonWebTokenError
   \<and> isl (fst (authenticateToken example_env expired_request example_world))
   \<and> status (fst (handle PronunciationFeedback example_env expired_request example_world)) = 403
   \<and> db_fault exchange_fault_env ExchangeCreate
   \<and> status (fst (handle ConversationResponse exchange_fault_env example_request
                    example_world)) = 200
   \<and> exchanges (snd (handle ConversationResponse exchange_fault_env example_request
                       example_world)) = []
   \<and> Log ''Error saving conversation:''
       \<in> set (trace (snd (handle ConversationResponse exchange_fault_env example_request
                            example_world)))"
  by (simp add: handle_def authenticateToken_def token_of_def required_def split_second_def
      res_json_def find_user_def getConversationResponse_def catch_500_def userId_of_def
      find_language_def callGeminiText_def create_exchange_def emit_def
      expired_request_def exchange_fault_env_def example_request_def example_env_def
      example_world_def example_user_def example_language_def)

text \<open>
  Claim C9, amended. Every route runs \<open>authenticateToken\<close> before its controller. A
  request whose \<open>Authorization\<close> header gives no token (there is no header, or nothing
  follows its first space) is answered 401 and nothing else happens; so is one whose token
  names no stored user. One whose token \<open>jwt.verify\<close> rejects (an invalid or expired
  token, Basic credentials) is answered 403, and another failure of the authentication
  500. For an authenticated request (the id of its user is not the empty string), a
  missing required field gives 400, an entity that is not stored 404, and 500 is the answer to a failing lookup of the entity, to a failing
  Prisma call after it other than the storing of the conversation exchange and the calls
  of the quiz step of lesson generation, and to a failing model call of the
  conversation-response endpoint. Every other request is answered 200.
\<close>

theorem route_status_codes:
  "(token_of req = None \<longrightarrow>
      status (fst (handle r env req w)) = 401 \<and> snd (handle r env req w) = w)
   \<and> (token_of req = Some t \<and> jwt_verify env t = Inr uid \<and> \<not> db_fault env AuthUserFind
        \<and> List.find (\<lambda>u. user_id u = uid) (users w) = None \<longrightarrow>
      status (fst (handle r env req w)) = 401)
   \<and> (token_of req = Some t \<and> jwt_verify env t = Inl JsonWebTokenError \<longrightarrow>
      status (fst (handle r env req w)) = 403 \<and> snd (handle r env req w) = w)
   \<and> (token_of req = Some t
        \<and> ((\<exists>e. jwt_verify env t = Inl e \<and> e \<noteq> JsonWebTokenError)
            \<or> (\<exists>uid. jwt_verify env t = Inr uid \<and> db_fault env AuthUserFind)) \<longrightarrow>
      status (fst (handle r env req w)) = 500)
   \<and> (token_of req = Some t \<and> jwt_verify env t = Inr uid \<and> uid \<noteq> []
        \<and> \<not> db_fault env AuthUserFind
        \<and> List.find (\<lambda>u. user_id u = uid) (users w) = Some u \<longrightarrow>
      (missing_fields r req \<longrightarrow> status (fst (handle r env req w)) = 400)
      \<and> (\<not> missing_fields r req \<and> db_fault env (lookup_site r) \<longrightarrow>
           status (fst (handle r env req w)) = 500)
      \<and> (\<not> missing_fields r req \<and> \<not> db_fault env (lookup_site r) \<and> entity_unknown r req w \<longrightarrow>
           status (fst (handle r env req w)) = 404)
      \<and> (\<not> missing_fields r req \<and> \<not> db_fault env (lookup_site r) \<and> \<not> entity_unknown r req w
           \<and> ((\<exists>s \<in> set (later_sites r req w). db_fault env s) \<or> reply_fails r env) \<longrightarrow>
           status (fst (handle r env req w)) = 500)
      \<and> (\<not> missing_fields r req \<and> \<not> db_fault env (lookup_site r) \<and> \<not> entity_unknown r req w
           \<and> (\<forall>s \<in> set (later_sites r req w). \<not> db_fault env s) \<and> \<not> reply_fails r env \<longrightarrow>
           status (fst (handle r env req w)) = 200))"
proof (intro conjI impI)
  assume "token_of req = None"
  then show "status (fst (handle r env req w)) = 401" "snd (handle r env req w) = w"
    by (simp_all add: handle_def authenticateToken_def res_json_def)
next
  assume "token_of req = Some t \<and> jwt_verify env t = Inr uid \<and> \<not> db_fault env AuthUserFind
        \<and> List.find (\<lambda>u. user_id u = uid) (users w) = None"
  then show "status (fst (handle r env req w)) = 401"
    by (simp add: handle_def authenticateToken_def find_user_def res_json_def)
next
  assume "token_of req = Some t \<and> jwt_verify env t = Inl JsonWebTokenError"
  then show "status (fst (handle r env req w)) = 403" "snd (handle r env req w) = w"
    by (simp_all add: handle_def authenticateToken_def res_json_def)
next
  assume "token_of req = Some t
        \<and> ((\<exists>e. jwt_verify env t = Inl e \<and> e \<noteq> JsonWebTokenError)
            \<or> (\<exists>uid. jwt_verify env t = Inr uid \<and> db_fault env AuthUserFind))"
  then show "status (fst (handle r env req w)) = 500"
    by (auto simp: handle_def authenticateToken_def find_user_def res_json_def)
next
  assume a: "token_of req = Some t \<and> jwt_verify env t = Inr uid \<and> uid \<noteq> []
        \<and> \<not> db_fault env AuthUserFind
        \<and> List.find (\<lambda>u. user_id u = uid) (users w) = Some u"
  then have h: "handle r env req w =
      controller r env (req\<lparr>req_user := Some u\<rparr>) (emit (Db AuthUserFind) w)"
    by (simp add: authenticated)
  from a have "user_id u = uid" by (blast dest: find_Some_user_id)
  with a have i: "required (userId_of (req\<lparr>req_user := Some u\<rparr>)) \<noteq> None"
    by (simp add: required_def userId_of_def)
  {
    assume "missing_fields r req"
    then show "status (fst (handle r env req w)) = 400"
      by (simp add: h controller_400)
  next
    assume "\<not> missing_fields r req \<and> db_fault env (lookup_site r)"
    then show "status (fst (handle r env req w)) = 500"
      using i by (simp add: h controller_500)
  next
    assume "\<not> missing_fields r req \<and> \<not> db_fault env (lookup_site r) \<and> entity_unknown r req w"
    then show "status (fst (handle r env req w)) = 404"
      using i by (simp add: h controller_404)
  next
    assume b: "\<not> missing_fields r req \<and> \<not> db_fault env (lookup_site r)
        \<and> \<not> entity_unknown r req w
        \<and> ((\<exists>s \<in> set (later_sites r req w). db_fault env s) \<or> reply_fails r env)"
    show "status (fst (handle r env req w)) = 500"
    proof (cases "reply_fails r env")
      case True
      with b i show ?thesis by (simp add: h controller_reply_500)
    next
      case False
      with b have "\<exists>s \<in> set (later_sites r req w). db_fault env s" by blast
      with b i show ?thesis by (simp add: h controller_later_500)
    qed
  next
    assume "\<not> missing_fields r req \<and> \<not> db_fault env (lookup_site r) \<and> \<not> entity_unknown r req w
        \<and> (\<forall>s \<in> set (later_sites r req w). \<not> db_fault env s) \<and> \<not> reply_fails r env"
    then show "status (fst (handle r env req w)) = 200"
      using i by (simp add: h controller_200)
  }
qed

theorem route_status_codes_witness:
  "token_of (example_request\<lparr>authorization := None\<rparr>) = None
   \<and> status (fst (handle PronunciationFeedback example_env
                    (example_request\<lparr>authorization := None\<rparr>) example_world)) = 401
   \<and> token_of (example_request\<lparr>authorization := Some ''Bearer gone''\<rparr>) = Some ''gone''
   \<and> status (fst (handle PronunciationFeedback example_env
                    (example_request\<lparr>authorization := Some ''Bearer gone''\<rparr>) example_world)) = 401
   \<and> token_of expired_request = Some ''expired''
   \<and> status (fst (handle PronunciationFeedback example_env expired_request example_world)) = 403
   \<and> token_of basic_request = Some ''dXNlcjpwYXNz''
   \<and> status (fst (handle PronunciationFeedback example_env basic_request example_world)) = 403
   \<and> db_fault (example_env\<lparr>db_fault := (\<lambda>s. s = AuthUserFind)\<rparr>) AuthUserFind
   \<and> status (fst (handle GenerateQuiz (example_env\<lparr>db_fault := (\<lambda>s. s = AuthUserFind)\<rparr>)
                    example_request example_world)) = 500
   \<and> token_of example_request = Some ''good''
   \<and> missing_fields PronunciationFeedback (example_request\<lparr>audioData := None\<rparr>)
   \<and> status (fst (handle PronunciationFeedback example_env
                    (example_request\<lparr>audioData := None\<rparr>) example_world)) = 400
   \<and> \<not> missing_fields GenerateLesson example_request
   \<and> status (fst (handle GenerateLesson
                    (example_env\<lparr>db_fault := (\<lambda>s. s = LessonLanguageFind)\<rparr>)
                    example_request example_world)) = 500
   \<and> entity_unknown GenerateQuiz (example_request\<lparr>lessonId := Some ''lesson-9''\<rparr>) example_world
   \<and> status (fst (handle GenerateQuiz example_env
                    (example_request\<lparr>lessonId := Some ''lesson-9''\<rparr>) example_world)) = 404
   \<and> \<not> entity_unknown GenerateLesson example_request example_world
   \<and> LessonCreate \<in> set (later_sites GenerateLesson example_request example_world)
   \<and> status (fst (handle GenerateLesson (example_env\<lparr>db_fault := (\<lambda>s. s = LessonCreate)\<rparr>)
                    example_request example_world)) = 500
   \<and> \<not> reply_fails ConversationResponse exchange_fault_env
   \<and> status (fst (handle ConversationResponse exchange_fault_env example_request
                    example_world)) = 200"
proof -
  let ?none = "example_request\<lparr>authorization := None\<rparr>"
  let ?gone = "example_request\<lparr>authorization := Some ''Bearer gone''\<rparr>"
  let ?audio = "example_request\<lparr>audioData := None\<rparr>"
  let ?fault = "example_env\<lparr>db_fault := (\<lambda>s. s = LessonLanguageFind)\<rparr>"
  let ?auth = "example_env\<lparr>db_fault := (\<lambda>s. s = AuthUserFind)\<rparr>"
  let ?create = "example_env\<lparr>db_fault := (\<lambda>s. s = LessonCreate)\<rparr>"
  let ?quiz = "example_request\<lparr>lessonId := Some ''lesson-9''\<rparr>"
  note t = route_status_codes
  have k: "token_of ?none = None" "token_of ?gone = Some ''gone''"
    "token_of expired_request = Some ''expired''" "token_of example_request = Some ''good''"
    "token_of ?audio = Some ''good''" "token_of ?quiz = Some ''good''"
    "token_of basic_request = Some ''dXNlcjpwYXNz''"
    by (simp_all add: token_of_def required_def split_second_def expired_request_def
        basic_request_def example_request_def)
  have j: "jwt_verify example_env ''gone'' = Inr ''u9''"
    "jwt_verify example_env ''expired'' = Inl JsonWebTokenError"
    "jwt_verify example_env ''good'' = Inr ''u1''" "jwt_verify ?fault ''good'' = Inr ''u1''"
    "\<not> db_fault example_env AuthUserFind" "\<not> db_fault ?fault AuthUserFind"
    "jwt_verify example_env ''dXNlcjpwYXNz'' = Inl JsonWebTokenError"
    "jwt_verify ?auth ''good'' = Inr ''u1''" "db_fault ?auth AuthUserFind"
    "jwt_verify ?create ''good'' = Inr ''u1''" "\<not> db_fault ?create AuthUserFind"
    "jwt_verify exchange_fault_env ''good'' = Inr ''u1''"
    "\<not> db_fault exchange_fault_env AuthUserFind"
    by (simp_all add: example_env_def exchange_fault_env_def)
  have u: "List.find (\<lambda>u. user_id u = ''u9'') (users example_world) = None"
    "List.find (\<lambda>u. user_id u = ''u1'') (users example_world) = Some example_user"
    by (simp_all add: example_world_def example_user_def)
  have m: "missing_fields PronunciationFeedback ?audio"
    "\<not> missing_fields GenerateLesson example_request"
    "\<not> missing_fields GenerateQuiz ?quiz"
    "\<not> missing_fields ConversationResponse example_request"
    by (simp_all add: required_def example_request_def)
  have f: "db_fault ?fault (lookup_site GenerateLesson)"
    "\<not> db_fault example_env (lookup_site GenerateQuiz)"
    "\<not> db_fault ?create (lookup_site GenerateLesson)"
    "\<not> db_fault exchange_fault_env (lookup_site ConversationResponse)"
    by (simp_all add: example_env_def exchange_fault_env_def)
  have e: "entity_unknown GenerateQuiz ?quiz example_world"
    "\<not> entity_unknown GenerateLesson example_request example_world"
    "\<not> entity_unknown ConversationResponse example_request example_world"
    by (simp_all add: language_unknown_def example_request_def example_world_def
        example_lesson_def example_language_def)
  have l: "LessonCreate \<in> set (later_sites GenerateLesson example_request example_world)"
    "db_fault ?create LessonCreate"
    "\<forall>s \<in> set (later_sites ConversationResponse example_request example_world).
        \<not> db_fault exchange_fault_env s"
    "\<not> reply_fails ConversationResponse exchange_fault_env"
    by (simp_all add: reply_fails_def exchange_fault_env_def example_env_def)
  have n: "''u1'' \<noteq> []" by simp
  from t [where req = ?none and r = PronunciationFeedback and env = example_env and w = example_world] k(1)
  have c1: "status (fst (handle PronunciationFeedback example_env ?none example_world)) = 401"
    by blast
  from t [where req = ?gone and t = "''gone''" and env = example_env and uid = "''u9''"
      and w = example_world and r = PronunciationFeedback]
    k(2) j(1,5) u(1)
  have c2: "status (fst (handle PronunciationFeedback example_env ?gone example_world)) = 401"
    by blast
  from t [where req = expired_request and t = "''expired''" and env = example_env
      and w = example_world and r = PronunciationFeedback]
    k(3) j(2)
  have c3: "status (fst (handle PronunciationFeedback example_env expired_request
      example_world)) = 403"
    by blast
  from t [where req = basic_request and t = "''dXNlcjpwYXNz''" and env = example_env
      and w = example_world and r = PronunciationFeedback]
    k(7) j(7)
  have c3b: "status (fst (handle PronunciationFeedback example_env basic_request
      example_world)) = 403"
    by blast
  from t [where req = example_request and t = "''good''" and env = ?auth
      and w = example_world and r = GenerateQuiz] k(4) j(8,9)
  have c3c: "status (fst (handle GenerateQuiz ?auth example_request example_world)) = 500"
    by blast
  from t [where req = ?audio and t = "''good''" and env = example_env and uid = "''u1''"
      and w = example_world and r = PronunciationFeedback and u = example_user] k(5) j(3,5) u(2) m(1) n
  have c4: "status (fst (handle PronunciationFeedback example_env ?audio example_world)) = 400"
    by blast
  from t [where req = example_request and t = "''good''" and env = ?fault and uid = "''u1''"
      and w = example_world and r = GenerateLesson and u = example_user] k(4) j(4,6) u(2) m(2) f(1) n
  have c5: "status (fst (handle GenerateLesson ?fault example_request example_world)) = 500"
    by blast
  from t [where req = ?quiz and t = "''good''" and env = example_env and uid = "''u1''"
      and w = example_world and r = GenerateQuiz and u = example_user]
    k(6) j(3,5) u(2) m(3) f(2) e(1) n
  have c6: "status (fst (handle GenerateQuiz example_env ?quiz example_world)) = 404"
    by blast
  from t [where req = example_request and t = "''good''" and env = ?create and uid = "''u1''"
      and w = example_world and r = GenerateLesson and u = example_user] k(4) j(10,11) u(2) m(2) f(3) e(2) l(1,2) n
  have c7: "status (fst (handle GenerateLesson ?create example_request example_world)) = 500"
    by blast
  from t [where req = example_request and t = "''good''" and env = exchange_fault_env
      and uid = "''u1''" and w = example_world and r = ConversationResponse
      and u = example_user] k(4) j(12,13) u(2) m(4) f(4) e(3) l(3,4) n
  have c8: "status (fst (handle ConversationResponse exchange_fault_env example_request
      example_world)) = 200"
    by blast
  from k(1,2,3,4,7) j(9) m(1,2) e(1,2) l(1,4) c1 c2 c3 c3b c3c c4 c5 c6 c7 c8
  show ?thesis by blast
qed

end
